theory Spec2Isabelle
  imports Main "HOL-Library.Word"
begin

section \<open>Common types\<close>

text \<open>
  Hashes and trytes are Go strings; key indices, amounts and depths are \<open>uint64\<close>.
  A \<open>time.Time\<close> is represented by the number of nanoseconds since the Unix epoch.
\<close>

type_synonym u64 = "64 word"
type_synonym Hash = string
type_synonym Trytes = string
type_synonym Time = int

text \<open>
  Go error values. The named constructors are the package-level error variables that the
  code compares by identity; \<open>Opaque\<close> is any error created outside the modelled sources
  (database driver, node API, \<open>strconv\<close>, \<open>net/url\<close>), identified by its message;
  \<open>Wrap\<close> is \<open>errors.Wrap\<close> of \<open>github.com/pkg/errors\<close>.
\<close>

datatype error =
    Opaque string
  | ErrAddressInvalid
  | ErrUnableToPromote
  | ErrUnableToReattach
  | ErrUnpromotableTail
  | ErrPendingTransferNotFound
  | ErrAccountNotFound
  | ErrInsufficientBalance
  | ErrInvalidAddress
  | ErrAccountNotRunning
  | ErrEmptyRecipients
  | Wrap error string

text \<open>A call that can panic either panics or returns.\<close>

datatype 'a outcome = Panic | Return 'a

section \<open>Decimal formatting and parsing (\<open>strconv\<close>, \<open>fmt\<close> verb \<open>%d\<close>)\<close>

definition digit_char :: "nat \<Rightarrow> char" where
  "digit_char d = ''0123456789'' ! d"

function decimal :: "nat \<Rightarrow> string" where
  "decimal n = (if n < 10 then [digit_char n] else decimal (n div 10) @ [digit_char (n mod 10)])"
  by pat_completeness auto
termination
  by (relation "measure id") auto

declare decimal.simps [simp del]

definition FormatUint :: "u64 \<Rightarrow> string" where
  "FormatUint n = decimal (unat n)"

definition format_int :: "int \<Rightarrow> string" where
  "format_int i = (if i < 0 then CHR ''-'' # decimal (nat (- i)) else decimal (nat i))"

definition is_digit :: "char \<Rightarrow> bool" where
  "is_digit c = (c \<in> set ''0123456789'')"

text \<open>The value of a digit: its position among the digits.\<close>

fun index_of :: "char \<Rightarrow> string \<Rightarrow> nat" where
  "index_of c [] = 0"
| "index_of c (d # ds) = (if c = d then 0 else Suc (index_of c ds))"

fun digits_value :: "nat \<Rightarrow> string \<Rightarrow> nat option" where
  "digits_value acc [] = Some acc"
| "digits_value acc (c # cs) =
     (if is_digit c then digits_value (10 * acc + index_of c ''0123456789'') cs else None)"

text \<open>\<open>strconv.ParseUint(s, 10, 64)\<close>: digits only, no sign, value below \<open>2^64\<close>.\<close>

definition ParseUint :: "string \<Rightarrow> error + u64" where
  "ParseUint s =
     (if s = [] then Inl (Opaque ''invalid syntax'')
      else case digits_value 0 s of
             None \<Rightarrow> Inl (Opaque ''invalid syntax'')
           | Some n \<Rightarrow> if n < 2 ^ 64 then Inr (of_nat n) else Inl (Opaque ''value out of range''))"

text \<open>\<open>strconv.ParseInt(s, 10, 64)\<close>: an optional sign, digits, value in the \<open>int64\<close> range.\<close>

definition ParseInt :: "string \<Rightarrow> error + int" where
  "ParseInt s =
     (case s of
        [] \<Rightarrow> Inl (Opaque ''invalid syntax'')
      | c # cs \<Rightarrow>
          (let neg = (c = CHR ''-'');
               ds = (if c = CHR ''-'' \<or> c = CHR ''+'' then cs else s)
           in if ds = [] then Inl (Opaque ''invalid syntax'')
              else case digits_value 0 ds of
                     None \<Rightarrow> Inl (Opaque ''invalid syntax'')
                   | Some n \<Rightarrow>
                       if \<not> neg \<and> n < 2 ^ 63 then Inr (int n)
                       else if neg \<and> n \<le> 2 ^ 63 then Inr (- int n)
                       else Inl (Opaque ''value out of range'')))"

section \<open>Deposit requests and pending transfers (packages \<open>deposit\<close> and \<open>store\<close>)\<close>

text \<open>
  \<open>deposit.Request\<close>. The two pointer fields are optional values: \<open>None\<close> is the nil
  pointer.
\<close>

record Request =
  TimeoutAt :: "Time option"
  MultiUse :: bool
  ExpectedAmount :: "u64 option"

record StoredDepositRequest =
  SecurityLevel :: nat
  Req :: Request

record PendingTransfer =
  Bundle :: "Trytes list"
  Tails :: "Hash list"

section \<open>The MongoDB store (\<open>account/store/mongo/mongo.go\<close>)\<close>

text \<open>
  One document per account, keyed by \<open>_id\<close>. The deposit requests are keyed by the decimal
  string of the key index, the pending transfers by the origin tail hash.
\<close>

record accountstate =
  ID :: string
  KeyIndex :: u64
  DepositRequests :: "string \<rightharpoonup> StoredDepositRequest"
  PendingTransfers :: "Hash \<rightharpoonup> PendingTransfer"

type_synonym collection = "string \<rightharpoonup> accountstate"

definition newaccountstate :: accountstate where
  "newaccountstate =
     \<lparr>ID = [], KeyIndex = 0, DepositRequests = Map.empty, PendingTransfers = Map.empty\<rparr>"

text \<open>
  The driver's \<open>UpdateOne\<close>. The first argument is the outcome of the round trip to the
  server: \<open>Some e\<close> when the driver reports the error \<open>e\<close>. Otherwise the first document with
  the given \<open>_id\<close> that satisfies the rest of the filter is rewritten by the mutation; when no
  document matches, nothing is written, no error is reported and the result counts zero
  matches (the calls below never ask for an upsert).
\<close>

record UpdateResult =
  MatchedCount :: nat
  ModifiedCount :: nat

definition UpdateOne ::
  "error option \<Rightarrow> collection \<Rightarrow> string \<Rightarrow> (accountstate \<Rightarrow> bool) \<Rightarrow>
   (accountstate \<Rightarrow> accountstate) \<Rightarrow> collection \<times> (error + UpdateResult)" where
  "UpdateOne drv coll accId flt mutation =
     (case drv of
        Some e \<Rightarrow> (coll, Inl e)
      | None \<Rightarrow>
          (case coll accId of
             None \<Rightarrow> (coll, Inr \<lparr>MatchedCount = 0, ModifiedCount = 0\<rparr>)
           | Some doc \<Rightarrow>
               if flt doc
               then (coll(accId \<mapsto> mutation doc),
                     Inr \<lparr>MatchedCount = 1, ModifiedCount = (if mutation doc = doc then 0 else 1)\<rparr>)
               else (coll, Inr \<lparr>MatchedCount = 0, ModifiedCount = 0\<rparr>)))"

text \<open>What the store methods do with the result of \<open>UpdateOne\<close>: they look at the error only.\<close>

definition err_only :: "collection \<times> (error + UpdateResult) \<Rightarrow> collection \<times> error option" where
  "err_only r = (case r of (coll, Inl err) \<Rightarrow> (coll, Some err) | (coll, Inr _) \<Rightarrow> (coll, None))"

text \<open>
  \<open>LoadAccount\<close>: two round trips (\<open>FindOne\<close>, then \<open>InsertOne\<close> for an unknown account).
  The result is the account's document; a new account gets an empty one.
\<close>

definition LoadAccount ::
  "error option \<Rightarrow> error option \<Rightarrow> collection \<Rightarrow> string \<Rightarrow> collection \<times> (error + accountstate)" where
  "LoadAccount drv_find drv_insert coll accId =
     (case drv_find of
        Some e \<Rightarrow> (coll, Inl e)
      | None \<Rightarrow>
          (case coll accId of
             Some doc \<Rightarrow> (coll, Inr doc)
           | None \<Rightarrow>
               (case drv_insert of
                  Some e \<Rightarrow> (coll, Inl e)
                | None \<Rightarrow> (coll(accId \<mapsto> newaccountstate\<lparr>ID := accId\<rparr>), Inr newaccountstate))))"

definition RemoveAccount :: "error option \<Rightarrow> collection \<Rightarrow> string \<Rightarrow> collection \<times> error option" where
  "RemoveAccount drv coll accId =
     (case drv of
        Some e \<Rightarrow> (coll, Some e)
      | None \<Rightarrow>
          (case coll accId of
             None \<Rightarrow> (coll, Some ErrAccountNotFound)
           | Some _ \<Rightarrow> (coll(accId := None), None)))"

definition WriteIndex :: "error option \<Rightarrow> collection \<Rightarrow> string \<Rightarrow> u64 \<Rightarrow> collection \<times> error option" where
  "WriteIndex drv coll accId index =
     err_only (UpdateOne drv coll accId (\<lambda>_. True) (\<lambda>doc. doc\<lparr>KeyIndex := index\<rparr>))"

definition AddDepositRequest ::
  "error option \<Rightarrow> collection \<Rightarrow> string \<Rightarrow> u64 \<Rightarrow> StoredDepositRequest \<Rightarrow> collection \<times> error option" where
  "AddDepositRequest drv coll accId index depositRequest =
     err_only (UpdateOne drv coll accId (\<lambda>_. True)
       (\<lambda>doc. doc\<lparr>DepositRequests := (DepositRequests doc)(FormatUint index \<mapsto> depositRequest)\<rparr>))"

definition RemoveDepositRequest ::
  "error option \<Rightarrow> collection \<Rightarrow> string \<Rightarrow> u64 \<Rightarrow> collection \<times> error option" where
  "RemoveDepositRequest drv coll accId index =
     err_only (UpdateOne drv coll accId (\<lambda>_. True)
       (\<lambda>doc. doc\<lparr>DepositRequests := (DepositRequests doc)(FormatUint index := None)\<rparr>))"

text \<open>The \<open>$unset\<close> map built from the input indices of \<open>AddPendingTransfer\<close>.\<close>

fun unset_all :: "u64 list \<Rightarrow> (string \<rightharpoonup> StoredDepositRequest) \<Rightarrow> (string \<rightharpoonup> StoredDepositRequest)" where
  "unset_all [] m = m"
| "unset_all (index # indices) m = unset_all indices (m(FormatUint index := None))"

text \<open>
  \<open>AddPendingTransfer\<close>. The conversion \<open>store.TrytesToPendingTransfer\<close> is not among the
  sources; it is the parameter \<open>conv\<close>. The origin tail is appended to whatever tails the
  converted record already has.
\<close>

definition AddPendingTransfer ::
  "(Trytes list \<Rightarrow> PendingTransfer) \<Rightarrow> error option \<Rightarrow> collection \<Rightarrow> string \<Rightarrow> Hash \<Rightarrow>
   Trytes list \<Rightarrow> u64 list \<Rightarrow> collection \<times> error option" where
  "AddPendingTransfer conv drv coll accId originTailTxHash bundleTrytes indices =
     (let pendingTransfer = conv bundleTrytes;
          pendingTransfer = pendingTransfer\<lparr>Tails := Tails pendingTransfer @ [originTailTxHash]\<rparr>
      in err_only (UpdateOne drv coll accId (\<lambda>_. True)
           (\<lambda>doc. doc\<lparr>PendingTransfers := (PendingTransfers doc)(originTailTxHash \<mapsto> pendingTransfer),
                      DepositRequests := unset_all indices (DepositRequests doc)\<rparr>)))"

definition RemovePendingTransfer ::
  "error option \<Rightarrow> collection \<Rightarrow> string \<Rightarrow> Hash \<Rightarrow> collection \<times> error option" where
  "RemovePendingTransfer drv coll accId originTailTxHash =
     err_only (UpdateOne drv coll accId (\<lambda>_. True)
       (\<lambda>doc. doc\<lparr>PendingTransfers := (PendingTransfers doc)(originTailTxHash := None)\<rparr>))"

text \<open>\<open>$addToSet\<close> on the tails array: the value is appended unless the array holds it already.\<close>

definition addToSet :: "Hash list \<Rightarrow> Hash \<Rightarrow> Hash list" where
  "addToSet xs x = (if x \<in> set xs then xs else xs @ [x])"

definition addToSet_tails :: "Hash \<Rightarrow> Hash \<Rightarrow> accountstate \<Rightarrow> accountstate" where
  "addToSet_tails originTailTxHash newTailTxHash doc =
     (case PendingTransfers doc originTailTxHash of
        None \<Rightarrow> doc
      | Some pt \<Rightarrow>
          doc\<lparr>PendingTransfers :=
                (PendingTransfers doc)(originTailTxHash \<mapsto> pt\<lparr>Tails := addToSet (Tails pt) newTailTxHash\<rparr>)\<rparr>)"

text \<open>
  \<open>AddTailHash\<close>: the filter asks for the account's document and for the pending transfer
  to exist in it. The method returns the driver's error, and nil otherwise.
\<close>

definition AddTailHash ::
  "error option \<Rightarrow> collection \<Rightarrow> string \<Rightarrow> Hash \<Rightarrow> Hash \<Rightarrow> collection \<times> error option" where
  "AddTailHash drv coll accId originTailTxHash newTailTxHash =
     err_only (UpdateOne drv coll accId
       (\<lambda>doc. PendingTransfers doc originTailTxHash \<noteq> None)
       (addToSet_tails originTailTxHash newTailTxHash))"

subsection \<open>Sequences of store operations\<close>

text \<open>
  A call of a store method together with the outcomes of its round trips to the server.
  The store states that can arise are those produced from the empty collection by a
  sequence of such calls.
\<close>

datatype store_op =
    OpLoadAccount "error option" "error option" string
  | OpRemoveAccount "error option" string
  | OpWriteIndex "error option" string u64
  | OpAddDepositRequest "error option" string u64 StoredDepositRequest
  | OpRemoveDepositRequest "error option" string u64
  | OpAddPendingTransfer "error option" string Hash "Trytes list" "u64 list"
  | OpRemovePendingTransfer "error option" string Hash
  | OpAddTailHash "error option" string Hash Hash

fun apply_op :: "(Trytes list \<Rightarrow> PendingTransfer) \<Rightarrow> collection \<Rightarrow> store_op \<Rightarrow> collection" where
  "apply_op conv coll (OpLoadAccount d1 d2 a) = fst (LoadAccount d1 d2 coll a)"
| "apply_op conv coll (OpRemoveAccount d a) = fst (RemoveAccount d coll a)"
| "apply_op conv coll (OpWriteIndex d a i) = fst (WriteIndex d coll a i)"
| "apply_op conv coll (OpAddDepositRequest d a i r) = fst (AddDepositRequest d coll a i r)"
| "apply_op conv coll (OpRemoveDepositRequest d a i) = fst (RemoveDepositRequest d coll a i)"
| "apply_op conv coll (OpAddPendingTransfer d a h ts is) = fst (AddPendingTransfer conv d coll a h ts is)"
| "apply_op conv coll (OpRemovePendingTransfer d a h) = fst (RemovePendingTransfer d coll a h)"
| "apply_op conv coll (OpAddTailHash d a h n) = fst (AddTailHash d coll a h n)"

definition run_ops :: "(Trytes list \<Rightarrow> PendingTransfer) \<Rightarrow> store_op list \<Rightarrow> collection" where
  "run_ops conv ops = foldl (apply_op conv) Map.empty ops"

text \<open>
  The invariant on pending transfers: the tails list is not empty and starts with the
  hash under which the record is stored.
\<close>

definition tails_ok :: "Hash \<Rightarrow> PendingTransfer \<Rightarrow> bool" where
  "tails_ok h pt = (Tails pt \<noteq> [] \<and> hd (Tails pt) = h)"

definition tails_inv :: "collection \<Rightarrow> bool" where
  "tails_inv coll =
     (\<forall>a doc h pt. coll a = Some doc \<longrightarrow> PendingTransfers doc h = Some pt \<longrightarrow> tails_ok h pt)"

section \<open>Magnet links (\<open>account/deposit/deposit.go\<close>)\<close>

record Conditions = Request +
  Address :: Hash

definition ConditionExpires :: string where "ConditionExpires = ''t''"
definition ConditionMultiUse :: string where "ConditionMultiUse = ''m''"
definition ConditionAmount :: string where "ConditionAmount = ''am''"

text \<open>\<open>consts.AddressWithChecksumTrytesSize\<close>: 81 trytes and 9 trytes of checksum.\<close>

definition AddressWithChecksumTrytesSize :: nat where
  "AddressWithChecksumTrytesSize = 90"

text \<open>\<open>Time.Unix()\<close> and \<open>time.Unix(sec, 0)\<close>.\<close>

definition Unix :: "Time \<Rightarrow> int" where
  "Unix t = t div 1000000000"

definition time_Unix :: "int \<Rightarrow> Time" where
  "time_Unix sec = sec * 1000000000"

definition format_bool :: "bool \<Rightarrow> string" where
  "format_bool b = (if b then ''true'' else ''false'')"

text \<open>
  \<open>AsMagnetLink\<close>. The last operand of \<open>Sprintf\<close> is the pointer field
  \<open>dc.ExpectedAmount\<close> itself, not the amount it points to, and the verb \<open>%d\<close> formats
  a pointer as the decimal of its address (0 for nil). The address held in the field is
  not part of a \<open>Request\<close> value, so it is the parameter \<open>amountPtr\<close>. Calling
  \<open>Unix\<close> through the nil \<open>TimeoutAt\<close> panics.
\<close>

definition AsMagnetLink :: "u64 \<Rightarrow> Conditions \<Rightarrow> string outcome" where
  "AsMagnetLink amountPtr dc =
     (case TimeoutAt dc of
        None \<Rightarrow> Panic
      | Some timeoutAt \<Rightarrow>
          Return (''iota://'' @ Address dc @ ''/?t='' @ format_int (Unix timeoutAt)
                  @ ''&m='' @ format_bool (MultiUse dc)
                  @ ''&am='' @ decimal (case ExpectedAmount dc of None \<Rightarrow> 0 | Some _ \<Rightarrow> unat amountPtr)))"

subsection \<open>\<open>net/url\<close> on links of this shape\<close>

text \<open>
  \<open>url.Parse\<close> is modelled on the strings \<open>scheme://host/path?query\<close> whose scheme is
  made of lower-case letters, whose host is made of letters and digits, and whose path
  and query use letters, digits and the characters \<open>/ = & - . _\<close> only. On these
  \<open>url.Parse\<close> returns no error, the host is the text between \<open>//\<close> and the next
  \<open>/\<close>, unchanged, and the raw query is the text after the first \<open>?\<close>. Every other
  input is outside the model (\<open>None\<close>).
\<close>

record URL =
  Scheme :: string
  Host :: string
  Path :: string
  RawQuery :: string

definition is_lower :: "char \<Rightarrow> bool" where
  "is_lower c = (c \<in> set ''abcdefghijklmnopqrstuvwxyz'')"

definition is_upper :: "char \<Rightarrow> bool" where
  "is_upper c = (c \<in> set ''ABCDEFGHIJKLMNOPQRSTUVWXYZ'')"

definition is_alnum :: "char \<Rightarrow> bool" where
  "is_alnum c = (is_lower c \<or> is_upper c \<or> is_digit c)"

definition is_plain :: "char \<Rightarrow> bool" where
  "is_plain c = (is_alnum c \<or> c \<in> set ''/=&-._'')"

text \<open>\<open>strings.Cut\<close> at a one-character separator.\<close>

fun cut :: "char \<Rightarrow> string \<Rightarrow> string \<times> string" where
  "cut sep [] = ([], [])"
| "cut sep (c # cs) = (if c = sep then ([], cs) else (case cut sep cs of (b, a) \<Rightarrow> (c # b, a)))"

fun split_on :: "char \<Rightarrow> string \<Rightarrow> string list" where
  "split_on sep [] = [[]]"
| "split_on sep (c # cs) =
     (if c = sep then [] # split_on sep cs
      else (case split_on sep cs of [] \<Rightarrow> [[c]] | p # ps \<Rightarrow> (c # p) # ps))"

fun strip_prefix :: "string \<Rightarrow> string \<Rightarrow> string option" where
  "strip_prefix [] s = Some s"
| "strip_prefix (p # ps) [] = None"
| "strip_prefix (p # ps) (c # cs) = (if p = c then strip_prefix ps cs else None)"

definition url_Parse :: "string \<Rightarrow> URL option" where
  "url_Parse s =
     (let scheme = takeWhile is_lower s
      in case strip_prefix ''://'' (dropWhile is_lower s) of
           None \<Rightarrow> None
         | Some rest \<Rightarrow>
             (let host = takeWhile is_alnum rest;
                  tl = dropWhile is_alnum rest;
                  pq = cut (CHR ''?'') tl
              in if scheme \<noteq> [] \<and> host \<noteq> [] \<and> (tl = [] \<or> hd tl = CHR ''/'')
                    \<and> list_all is_plain (fst pq) \<and> list_all is_plain (snd pq)
                 then Some \<lparr>Scheme = scheme, Host = host, Path = fst pq, RawQuery = snd pq\<rparr>
                 else None))"

text \<open>
  \<open>link.Query().Get(key)\<close>: the raw query is split at \<open>&\<close>, each piece at its first
  \<open>=\<close>; the value of the first piece with the key is returned, the empty string when
  there is none. (The queries of the model hold nothing to unescape.)
\<close>

definition query_Get :: "string \<Rightarrow> string \<Rightarrow> string" where
  "query_Get rawQuery key =
     (case filter (\<lambda>kv. fst kv = key) (map (cut (CHR ''='')) (filter (\<lambda>p. p \<noteq> []) (split_on (CHR ''&'') rawQuery))) of
        [] \<Rightarrow> []
      | kv # _ \<Rightarrow> snd kv)"

text \<open>
  \<open>ParseMagnetLink\<close>. The conditions start out as the zero value; the timeout, the
  multi-use flag and the expected amount are assigned, the address field is not.
\<close>

definition ParseMagnetLink :: "string \<Rightarrow> (error + Conditions) option" where
  "ParseMagnetLink s =
     (case url_Parse s of
        None \<Rightarrow> None
      | Some link \<Rightarrow> Some
          (let query = RawQuery link;
               cond = \<lparr>TimeoutAt = None, MultiUse = False, ExpectedAmount = None, Address = []\<rparr>
           in if length (Host link) \<noteq> AddressWithChecksumTrytesSize
              then Inl (Wrap ErrAddressInvalid ''address must be 90 trytes long'')
              else case ParseInt (query_Get query ConditionExpires) of
                     Inl err \<Rightarrow> Inl (Wrap err ''invalid expire timestamp'')
                   | Inr expiresSeconds \<Rightarrow>
                       (let cond = cond\<lparr>TimeoutAt := Some (time_Unix expiresSeconds)\<rparr>;
                            cond = cond\<lparr>MultiUse := (query_Get query ConditionMultiUse = ''true'')\<rparr>
                        in case ParseUint (query_Get query ConditionAmount) of
                             Inl err \<Rightarrow> Inl (Wrap err ''invalid expected amount'')
                           | Inr expectedAmount \<Rightarrow> Inr (cond\<lparr>ExpectedAmount := Some expectedAmount\<rparr>))))"

section \<open>External calls, events and the trace\<close>

record TransactionsToApprove =
  TrunkTransaction :: Hash
  BranchTransaction :: Hash

text \<open>The fields of a transaction object that the account code reads.\<close>

record Transaction =
  tx_Hash :: Hash
  tx_Address :: Hash
  tx_Value :: int
  tx_Timestamp :: u64
  tx_Bundle :: Hash
  tx_Persistence :: "bool option"

type_synonym Transactions = "Transaction list"

record Transfer =
  tr_Address :: Hash
  tr_Value :: u64

record Input =
  in_Address :: Hash
  in_KeyIndex :: u64
  in_Balance :: u64
  in_Security :: nat

record PrepareTransfersOptions =
  Inputs :: "Input list"
  RemainderAddress :: "Hash option"
  Timestamp :: "u64 option"

record PromotionReattachmentEvent =
  OriginTailTxHash :: Hash
  BundleHash :: Hash
  PromotionTailTxHash :: Hash
  ReattachmentTailTxHash :: Hash

datatype event =
    EventError error
  | EventPromotion PromotionReattachmentEvent
  | EventReattachment PromotionReattachmentEvent
  | EventSendingTransfer Transactions

text \<open>
  Everything the account and its plugins do to the outside goes through the node API, the
  store, the clock, the seed provider and the event machine. Each such call is recorded,
  in order, in a trace.
\<close>

datatype action =
    CallGetTransactionsToApprove u64 "Hash option"
  | CallCheckConsistency Hash
  | CallGetTrytes Hash
  | CallAttachToTangle Hash Hash u64 "Trytes list"
  | CallStoreAndBroadcast "Trytes list"
  | CallPrepareTransfers "Transfer list" PrepareTransfersOptions
  | CallGetLatestSolidSubtangleMilestone
  | CallGetBalances "Hash list" u64 Hash
  | CallGetBundlesFromAddresses "Hash list"
  | CallNow
  | CallTime
  | CallSeed
  | CallGetPendingTransfers string
  | CallAddTailHash string Hash Hash
  | CallGetDepositRequests string
  | CallWriteIndex string u64
  | CallAddDepositRequest string u64 StoredDepositRequest
  | CallRemoveDepositRequest string u64
  | CallAddPendingTransfer string Hash "Trytes list" "u64 list"
  | Emit event

text \<open>
  The outside world has a state of its own, of type \<open>'w\<close>; a call takes the world and
  returns its result and the next world. The results are whatever the node, the store, the
  clock and the seed provider answer: they are parameters of the model. A map is handed
  over as the list of its entries in the order in which the \<open>range\<close> loop visits them. The
  last five fields are the pure helper functions of the packages \<open>transaction\<close>,
  \<open>store\<close> and \<open>address\<close>; \<open>GenerateAddress\<close> gives both of its results, since
  the code reads the address without looking at the error in places.
\<close>

record 'w Env =
  GetTransactionsToApprove :: "u64 \<Rightarrow> Hash option \<Rightarrow> 'w \<Rightarrow> (error + TransactionsToApprove) \<times> 'w"
  CheckConsistency :: "Hash \<Rightarrow> 'w \<Rightarrow> (error + bool) \<times> 'w"
  GetTrytes :: "Hash \<Rightarrow> 'w \<Rightarrow> (error + Trytes list) \<times> 'w"
  AttachToTangle :: "Hash \<Rightarrow> Hash \<Rightarrow> u64 \<Rightarrow> Trytes list \<Rightarrow> 'w \<Rightarrow> (error + Trytes list) \<times> 'w"
  StoreAndBroadcast :: "Trytes list \<Rightarrow> 'w \<Rightarrow> (error + Trytes list) \<times> 'w"
  PrepareTransfers :: "Trytes \<Rightarrow> Transfer list \<Rightarrow> PrepareTransfersOptions \<Rightarrow> 'w \<Rightarrow> (error + Trytes list) \<times> 'w"
  GetLatestSolidSubtangleMilestone :: "'w \<Rightarrow> (error + Hash) \<times> 'w"
  GetBalances :: "Hash list \<Rightarrow> u64 \<Rightarrow> Hash \<Rightarrow> 'w \<Rightarrow> (error + u64 list) \<times> 'w"
  GetBundlesFromAddresses :: "Hash list \<Rightarrow> 'w \<Rightarrow> (error + Transactions list) \<times> 'w"
  clock_Now :: "'w \<Rightarrow> (error + Time) \<times> 'w"
  TimeSource_Time :: "'w \<Rightarrow> (error + Time) \<times> 'w"
  SeedProv_Seed :: "'w \<Rightarrow> (error + Trytes) \<times> 'w"
  store_GetPendingTransfers :: "string \<Rightarrow> 'w \<Rightarrow> (error + (Hash \<times> PendingTransfer) list) \<times> 'w"
  store_AddTailHash :: "string \<Rightarrow> Hash \<Rightarrow> Hash \<Rightarrow> 'w \<Rightarrow> error option \<times> 'w"
  store_GetDepositRequests :: "string \<Rightarrow> 'w \<Rightarrow> (error + (u64 \<times> StoredDepositRequest) list) \<times> 'w"
  store_WriteIndex :: "string \<Rightarrow> u64 \<Rightarrow> 'w \<Rightarrow> error option \<times> 'w"
  store_AddDepositRequest :: "string \<Rightarrow> u64 \<Rightarrow> StoredDepositRequest \<Rightarrow> 'w \<Rightarrow> error option \<times> 'w"
  store_RemoveDepositRequest :: "string \<Rightarrow> u64 \<Rightarrow> 'w \<Rightarrow> error option \<times> 'w"
  store_AddPendingTransfer :: "string \<Rightarrow> Hash \<Rightarrow> Trytes list \<Rightarrow> u64 list \<Rightarrow> 'w \<Rightarrow> error option \<times> 'w"
  AsTransactionObject :: "Trytes \<Rightarrow> error + Transaction"
  AsTransactionObjects :: "Trytes list \<Rightarrow> error + Transactions"
  TransactionsToTrytes :: "Transactions \<Rightarrow> error + Trytes list"
  PendingTransferToBundle :: "PendingTransfer \<Rightarrow> error + Transactions"
  GenerateAddress :: "Trytes \<Rightarrow> u64 \<Rightarrow> nat \<Rightarrow> bool \<Rightarrow> Hash \<times> error option"

record 'w state =
  world :: 'w
  trace :: "action list"

definition call :: "action \<Rightarrow> ('w \<Rightarrow> 'r \<times> 'w) \<Rightarrow> 'w state \<Rightarrow> 'r \<times> 'w state" where
  "call a f s = (case f (world s) of (r, w) \<Rightarrow> (r, \<lparr>world = w, trace = trace s @ [a]\<rparr>))"

definition emit :: "event \<Rightarrow> 'w state \<Rightarrow> 'w state" where
  "emit ev s = s\<lparr>trace := trace s @ [Emit ev]\<rparr>"

text \<open>
  The message of an error, \<open>err.Error()\<close>. \<open>errors.Wrap(err, msg)\<close> reads
  \<open>msg: cause\<close>.

  Modelled from the spec: the declarations of \<open>store.ErrPendingTransferNotFound\<close>,
  \<open>store.ErrAccountNotFound\<close>, \<open>consts.ErrInsufficientBalance\<close>,
  \<open>consts.ErrInvalidAddress\<close>, \<open>ErrAccountNotRunning\<close> and \<open>ErrEmptyRecipients\<close>
  are not among the sources; their messages are the names the specification gives these
  error kinds. The modelled code never reads them.
\<close>

fun Error :: "error \<Rightarrow> string" where
  "Error (Opaque msg) = msg"
| "Error ErrAddressInvalid = ''invalid address''"
| "Error ErrUnableToPromote = ''unable to promote''"
| "Error ErrUnableToReattach = ''unable to reattach''"
| "Error ErrUnpromotableTail = ''tail is unpromoteable''"
| "Error ErrPendingTransferNotFound = ''PendingTransferNotFound''"
| "Error ErrAccountNotFound = ''AccountNotFound''"
| "Error ErrInsufficientBalance = ''InsufficientBalance''"
| "Error ErrInvalidAddress = ''InvalidAddress''"
| "Error ErrAccountNotRunning = ''AccountNotRunning''"
| "Error ErrEmptyRecipients = ''EmptyRecipients''"
| "Error (Wrap err msg) = msg @ '': '' @ Error err"

section \<open>The promoter (\<open>account/plugins/promoter/promoter.go\<close>)\<close>

text \<open>The fields of the promoter that a tick reads; \<open>accID\<close> is \<open>p.acc.ID()\<close>.\<close>

record Promoter =
  depth :: u64
  mwm :: u64
  accID :: string

definition approxAboveMaxDepthMinutes :: int where
  "approxAboveMaxDepthMinutes = 5"

definition maxDepth :: u64 where
  "maxDepth = 15"

definition referenceTooOldMsg :: string where
  "referenceTooOldMsg = ''reference transaction is too old''"

definition emptySeed :: Trytes where
  "emptySeed = replicate 81 (CHR ''9'')"

text \<open>
  Modelled from the spec: \<open>bundle.EmptyTransfer\<close> is not among the sources; the promotion
  bundle is a zero-value transfer addressed to the all-nines address.
\<close>

definition EmptyTransfer :: Transfer where
  "EmptyTransfer = \<lparr>tr_Address = replicate 81 (CHR ''9''), tr_Value = 0\<rparr>"

text \<open>
  \<open>t.Sub(u)\<close> is the difference in nanoseconds, clamped to the range of a
  \<open>time.Duration\<close> (an \<open>int64\<close>). \<open>d.Minutes() < m\<close>, for a whole number \<open>m\<close> of
  minutes, holds exactly when \<open>d\<close> is less than \<open>m\<close> minutes: \<open>Minutes\<close> adds the
  whole minutes of \<open>d\<close> and the fraction left over, which is below one.
\<close>

definition Sub :: "Time \<Rightarrow> Time \<Rightarrow> int" where
  "Sub t u = max (- (2 ^ 63)) (min (2 ^ 63 - 1) (t - u))"

definition Minutes_less :: "int \<Rightarrow> int \<Rightarrow> bool" where
  "Minutes_less d m = (d < m * 60000000000)"

definition aboveMaxDepth :: "'w Env \<Rightarrow> Time \<Rightarrow> 'w state \<Rightarrow> (bool \<times> error option) \<times> 'w state" where
  "aboveMaxDepth env ts s =
     (case call CallNow (clock_Now env) s of
        (Inl err, s1) \<Rightarrow> ((False, Some err), s1)
      | (Inr currentTime, s1) \<Rightarrow>
          ((Minutes_less (Sub currentTime ts) approxAboveMaxDepthMinutes, None), s1))"

text \<open>The closure \<open>send\<close>: proof of work, broadcast, hash of the first transaction.\<close>

definition send ::
  "'w Env \<Rightarrow> Promoter \<Rightarrow> Trytes list \<Rightarrow> TransactionsToApprove \<Rightarrow> 'w state \<Rightarrow>
   (error + Hash) outcome \<times> 'w state" where
  "send env p preparedBundle tips s =
     (case call (CallAttachToTangle (TrunkTransaction tips) (BranchTransaction tips) (mwm p) preparedBundle)
             (AttachToTangle env (TrunkTransaction tips) (BranchTransaction tips) (mwm p) preparedBundle) s of
        (Inl err, s1) \<Rightarrow>
          (Return (Inl (Wrap err ''performing PoW for promote/reattach cycle bundle failed'')), s1)
      | (Inr readyBundle, s1) \<Rightarrow>
          (case call (CallStoreAndBroadcast readyBundle) (StoreAndBroadcast env readyBundle) s1 of
             (Inl err, s2) \<Rightarrow>
               (Return (Inl (Wrap err ''unable to store/broadcast bundle in promote/reattach cycle'')), s2)
           | (Inr readyBundle, s2) \<Rightarrow>
               (case readyBundle of
                  [] \<Rightarrow> (Panic, s2)
                | t # _ \<Rightarrow>
                    (case AsTransactionObject env t of
                       Inl err \<Rightarrow> (Return (Inl err), s2)
                     | Inr tailTx \<Rightarrow> (Return (Inr (tx_Hash tailTx)), s2)))))"

text \<open>
  The closure \<open>promote\<close>. The loop variable \<open>depth\<close> starts at \<open>p.depth\<close>; the
  function \<open>promote_loop\<close> is one pass of the \<open>for\<close> loop at the given depth.
\<close>

function promote_loop ::
  "'w Env \<Rightarrow> Promoter \<Rightarrow> Hash \<Rightarrow> u64 \<Rightarrow> 'w state \<Rightarrow> (error + Hash) outcome \<times> 'w state" where
  "promote_loop env p tailTx d s =
     (case call (CallGetTransactionsToApprove d (Some tailTx))
             (GetTransactionsToApprove env d (Some tailTx)) s of
        (Inl err, s1) \<Rightarrow>
          if Error err = referenceTooOldMsg
          then (if d + 1 > maxDepth then (Return (Inl ErrUnpromotableTail), s1)
                else promote_loop env p tailTx (d + 1) s1)
          else (Return (Inl err), s1)
      | (Inr tips, s1) \<Rightarrow>
          (case call (CallPrepareTransfers [EmptyTransfer] \<lparr>Inputs = [], RemainderAddress = None, Timestamp = None\<rparr>)
                  (PrepareTransfers env emptySeed [EmptyTransfer]
                     \<lparr>Inputs = [], RemainderAddress = None, Timestamp = None\<rparr>) s1 of
             (Inl err, s2) \<Rightarrow> (Return (Inl (Wrap err ''unable to prepare promotion bundle'')), s2)
           | (Inr preparedBundle, s2) \<Rightarrow> send env p preparedBundle tips s2))"
  by pat_completeness auto


text \<open>
  The loop ends: the depth is a \<open>uint64\<close>, and a pass is repeated only when the
  incremented depth is at most 15.
\<close>

lemma unat_succ: "d \<noteq> (- 1 :: u64) \<Longrightarrow> unat (d + 1) = Suc (unat d)"
proof -
  assume "d \<noteq> - 1"
  then have "1 + d \<noteq> 0" by (metis add.commute add_eq_0_iff)
  then show ?thesis using unatSuc [of d] by (simp add: add.commute)
qed

lemma depth_measure:
  assumes "\<not> (15::u64) < d + 1"
  shows "(if d + 1 \<le> 15 then 16 - unat (d + 1) else 17) < (if d \<le> 15 then 16 - unat d else (17::nat))"
proof (cases "d = - 1")
  case True
  have "(- 1 :: u64) = 18446744073709551615" by simp
  with True show ?thesis by simp
next
  case False
  then have u: "unat (d + 1) = Suc (unat d)" by (rule unat_succ)
  from assms have "unat (d + 1) \<le> 15" by (simp add: word_less_nat_alt not_less)
  with u have "unat d \<le> 14" by simp
  then have "d \<le> 15" by (simp add: word_le_nat_alt)
  with u assms \<open>unat d \<le> 14\<close> show ?thesis by (simp add: not_less)
qed

termination promote_loop
  apply (relation "measure (\<lambda>(env, p, tailTx, d, s). if d \<le> 15 then 16 - unat d else 17)")
   apply simp
  apply (simp only: in_measure prod.case maxDepth_def)
  apply (rule depth_measure)
  apply assumption
  done

declare promote_loop.simps [simp del]

definition promote :: "'w Env \<Rightarrow> Promoter \<Rightarrow> Hash \<Rightarrow> 'w state \<Rightarrow> (error + Hash) outcome \<times> 'w state" where
  "promote env p tailTx s = promote_loop env p tailTx (depth p) s"

text \<open>
  The closure \<open>reattach\<close>. Tip selection has no reference here. The trytes are
  reversed before the proof of work.
\<close>

definition reattach ::
  "'w Env \<Rightarrow> Promoter \<Rightarrow> Transactions \<Rightarrow> 'w state \<Rightarrow> (error + Hash) outcome \<times> 'w state" where
  "reattach env p essenceBndl s =
     (case call (CallGetTransactionsToApprove (depth p) None)
             (GetTransactionsToApprove env (depth p) None) s of
        (Inl err, s1) \<Rightarrow>
          (case essenceBndl of
             [] \<Rightarrow> (Panic, s1)
           | b # _ \<Rightarrow>
               (Return (Inl (Wrap err
                  (''unable to GTTA for reattachment in promote/reattach cycle (bundle '' @ tx_Bundle b @ '')''))), s1))
      | (Inr tips, s1) \<Rightarrow>
          (case TransactionsToTrytes env essenceBndl of
             Inl err \<Rightarrow> (Return (Inl err), s1)
           | Inr essenceTrytes \<Rightarrow> send env p (rev essenceTrytes) tips s1))"

text \<open>
  The closure \<open>storeTailTxHash\<close>: true when the tail was stored, and also when the store
  answers \<open>ErrPendingTransferNotFound\<close>; any other error is emitted and the result is
  false.
\<close>

definition storeTailTxHash ::
  "'w Env \<Rightarrow> Promoter \<Rightarrow> string \<Rightarrow> string \<Rightarrow> string \<Rightarrow> 'w state \<Rightarrow> bool \<times> 'w state" where
  "storeTailTxHash env p key tailTxHash msg s =
     (case call (CallAddTailHash (accID p) key tailTxHash)
             (store_AddTailHash env (accID p) key tailTxHash) s of
        (Some err, s1) \<Rightarrow>
          if err = ErrPendingTransferNotFound then (True, s1)
          else (False, emit (EventError (Wrap err msg)) s1)
      | (None, s1) \<Rightarrow> (True, s1))"

text \<open>
  One pass of the inner loop over the tails: whether the tail is consistent and its
  transaction recent enough. Every failure on the way makes the loop go on to the next
  tail; indexing the empty result of \<open>GetTrytes\<close> panics.
\<close>

definition checkTail :: "'w Env \<Rightarrow> Hash \<Rightarrow> 'w state \<Rightarrow> bool outcome \<times> 'w state" where
  "checkTail env tailTx s =
     (case call (CallCheckConsistency tailTx) (CheckConsistency env tailTx) s of
        (Inl err, s1) \<Rightarrow> (Return False, s1)
      | (Inr consistent, s1) \<Rightarrow>
          if \<not> consistent then (Return False, s1)
          else (case call (CallGetTrytes tailTx) (GetTrytes env tailTx) s1 of
                  (Inl err, s2) \<Rightarrow> (Return False, s2)
                | (Inr txTrytes, s2) \<Rightarrow>
                    (case txTrytes of
                       [] \<Rightarrow> (Panic, s2)
                     | t # _ \<Rightarrow>
                         (case AsTransactionObject env t of
                            Inl err \<Rightarrow> (Return False, s2)
                          | Inr tx \<Rightarrow>
                              (case aboveMaxDepth env (time_Unix (sint (tx_Timestamp tx))) s2 of
                                 ((isAbove, err), s3) \<Rightarrow>
                                   (Return (\<not> (\<not> isAbove \<or> err \<noteq> None)), s3))))))"

text \<open>
  The inner loop \<open>for i := len(Tails) - 1; i >= 0; i--\<close>. The numeric argument is
  \<open>i + 1\<close>; the loop starts with the length of the list. The result is
  \<open>tailToPromote\<close>, the empty string when no tail was chosen.
\<close>

fun findTailToPromote :: "'w Env \<Rightarrow> Hash list \<Rightarrow> nat \<Rightarrow> 'w state \<Rightarrow> Hash outcome \<times> 'w state" where
  "findTailToPromote env tails 0 s = (Return [], s)"
| "findTailToPromote env tails (Suc i) s =
     (case checkTail env (tails ! i) s of
        (Panic, s1) \<Rightarrow> (Panic, s1)
      | (Return ok, s1) \<Rightarrow>
          if ok then (Return (tails ! i), s1) else findTailToPromote env tails i s1)"

text \<open>
  The selection in the words of the specification: go through a list of tails in the
  order given and stop at the first one that is consistent and recent enough.
\<close>

fun first_promotable :: "'w Env \<Rightarrow> Hash list \<Rightarrow> 'w state \<Rightarrow> Hash outcome \<times> 'w state" where
  "first_promotable env [] s = (Return [], s)"
| "first_promotable env (t # ts) s =
     (case checkTail env t s of
        (Panic, s1) \<Rightarrow> (Panic, s1)
      | (Return ok, s1) \<Rightarrow> if ok then (Return t, s1) else first_promotable env ts s1)"

text \<open>Promotion of a tail and the event that reports it (the code has this block twice).\<close>

definition promoteAndEmit ::
  "'w Env \<Rightarrow> Promoter \<Rightarrow> string \<Rightarrow> Transactions \<Rightarrow> Hash \<Rightarrow> 'w state \<Rightarrow> unit outcome \<times> 'w state" where
  "promoteAndEmit env p key bndl tailTx s =
     (case promote env p tailTx s of
        (Panic, s1) \<Rightarrow> (Panic, s1)
      | (Return (Inl err), s1) \<Rightarrow>
          (Return (), emit (EventError (Wrap ErrUnableToPromote (Error err))) s1)
      | (Return (Inr promoteTailTxHash), s1) \<Rightarrow>
          (case bndl of
             [] \<Rightarrow> (Panic, s1)
           | b # _ \<Rightarrow>
               (Return (), emit (EventPromotion
                  \<lparr>OriginTailTxHash = key, BundleHash = tx_Bundle b,
                   PromotionTailTxHash = promoteTailTxHash, ReattachmentTailTxHash = []\<rparr>) s1)))"

text \<open>The reattachment path: reattach, report, store the new tail, promote it.\<close>

definition reattachAndPromote ::
  "'w Env \<Rightarrow> Promoter \<Rightarrow> string \<Rightarrow> Transactions \<Rightarrow> 'w state \<Rightarrow> unit outcome \<times> 'w state" where
  "reattachAndPromote env p key bndl s =
     (case reattach env p bndl s of
        (Panic, s1) \<Rightarrow> (Panic, s1)
      | (Return (Inl err), s1) \<Rightarrow>
          (Return (), emit (EventError (Wrap ErrUnableToReattach (Error err))) s1)
      | (Return (Inr reattachTailTxHash), s1) \<Rightarrow>
          (case bndl of
             [] \<Rightarrow> (Panic, s1)
           | b # _ \<Rightarrow>
               (case storeTailTxHash env p key reattachTailTxHash
                       ''unable to store reattachment tx tail hash''
                       (emit (EventReattachment
                          \<lparr>OriginTailTxHash = key, BundleHash = tx_Bundle b,
                           PromotionTailTxHash = [], ReattachmentTailTxHash = reattachTailTxHash\<rparr>) s1) of
                  (stored, s2) \<Rightarrow>
                    if \<not> stored then (Return (), s2)
                    else promoteAndEmit env p key bndl reattachTailTxHash s2)))"

text \<open>The body of the loop over the pending transfers, for one of them.\<close>

definition promoteTransfer ::
  "'w Env \<Rightarrow> Promoter \<Rightarrow> string \<times> PendingTransfer \<Rightarrow> 'w state \<Rightarrow> unit outcome \<times> 'w state" where
  "promoteTransfer env p kv s =
     (case kv of (key, pendingTransfer) \<Rightarrow>
        (case findTailToPromote env (Tails pendingTransfer) (length (Tails pendingTransfer)) s of
           (Panic, s1) \<Rightarrow> (Panic, s1)
         | (Return tailToPromote, s1) \<Rightarrow>
             (case PendingTransferToBundle env pendingTransfer of
                Inl err \<Rightarrow> (Return (), s1)
              | Inr bndl \<Rightarrow>
                  if length tailToPromote > 0
                  then promoteAndEmit env p key bndl tailToPromote s1
                  else reattachAndPromote env p key bndl s1)))"

fun forEachPendingTransfer ::
  "'w Env \<Rightarrow> Promoter \<Rightarrow> (string \<times> PendingTransfer) list \<Rightarrow> 'w state \<Rightarrow> unit outcome \<times> 'w state" where
  "forEachPendingTransfer env p [] s = (Return (), s)"
| "forEachPendingTransfer env p (kv # kvs) s =
     (case promoteTransfer env p kv s of
        (Panic, s1) \<Rightarrow> (Panic, s1)
      | (Return _, s1) \<Rightarrow> forEachPendingTransfer env p kvs s1)"

text \<open>The method \<open>Promoter.promote\<close>: one tick.\<close>

definition Promoter_promote :: "'w Env \<Rightarrow> Promoter \<Rightarrow> 'w state \<Rightarrow> unit outcome \<times> 'w state" where
  "Promoter_promote env p s =
     (case call (CallGetPendingTransfers (accID p)) (store_GetPendingTransfers env (accID p)) s of
        (Inl err, s1) \<Rightarrow> (Return (), s1)
      | (Inr pendingTransfers, s1) \<Rightarrow>
          if length pendingTransfers = 0 then (Return (), s1)
          else forEachPendingTransfer env p pendingTransfers s1)"

subsection \<open>Notions used to state the promoter's properties\<close>

text \<open>The calls to the node and to the clock: neither a call of the store nor an event.\<close>

fun node_call :: "action \<Rightarrow> bool" where
  "node_call (CallGetTransactionsToApprove _ _) = True"
| "node_call (CallCheckConsistency _) = True"
| "node_call (CallGetTrytes _) = True"
| "node_call (CallAttachToTangle _ _ _ _) = True"
| "node_call (CallStoreAndBroadcast _) = True"
| "node_call (CallPrepareTransfers _ _) = True"
| "node_call CallNow = True"
| "node_call _ = False"

text \<open>The calls of the store.\<close>

fun store_call :: "action \<Rightarrow> bool" where
  "store_call (CallGetPendingTransfers _) = True"
| "store_call (CallAddTailHash _ _ _) = True"
| "store_call (CallGetDepositRequests _) = True"
| "store_call (CallWriteIndex _ _) = True"
| "store_call (CallAddDepositRequest _ _ _) = True"
| "store_call (CallRemoveDepositRequest _ _) = True"
| "store_call (CallAddPendingTransfer _ _ _ _) = True"
| "store_call _ = False"

text \<open>
  In the words of the specification: in the world \<open>w\<close> the tail passes the consistency
  check, and its transaction's timestamp lies less than five minutes before the time the
  clock shows. The worlds are those in which the loop makes its calls: the check, then
  \<open>GetTrytes\<close>, then the clock.
\<close>

definition consistent_and_recent :: "'w Env \<Rightarrow> Hash \<Rightarrow> 'w \<Rightarrow> bool" where
  "consistent_and_recent env tailTx w =
     (case CheckConsistency env tailTx w of
        (Inr True, w1) \<Rightarrow>
          (case GetTrytes env tailTx w1 of
             (Inr (t # _), w2) \<Rightarrow>
               (case AsTransactionObject env t of
                  Inr tx \<Rightarrow>
                    (case clock_Now env w2 of
                       (Inr now, _) \<Rightarrow> now - sint (tx_Timestamp tx) * 1000000000 < 5 * 60 * 1000000000
                     | _ \<Rightarrow> False)
                | _ \<Rightarrow> False)
           | _ \<Rightarrow> False)
      | _ \<Rightarrow> False)"

text \<open>A node that answers every tip selection referring to the tail with the too-old error.\<close>

definition always_too_old :: "'w Env \<Rightarrow> Hash \<Rightarrow> bool" where
  "always_too_old env tailTx =
     (\<forall>d w. \<exists>err. fst (GetTransactionsToApprove env d (Some tailTx) w) = Inl err \<and>
                    Error err = referenceTooOldMsg)"

subsection \<open>A concrete environment\<close>

text \<open>
  An outside world without state in which every call succeeds: the node finds the tail
  \<open>TAILA\<close> inconsistent, every transaction carries the timestamp 1000 s, the clock shows
  1120 s, and the store answers \<open>AddTailHash\<close> with \<open>ErrPendingTransferNotFound\<close>.
\<close>

definition example_tx :: "Trytes \<Rightarrow> Transaction" where
  "example_tx t = \<lparr>tx_Hash = ''HASHOF'' @ t, tx_Address = ''ADDR'', tx_Value = 0,
                   tx_Timestamp = 1000, tx_Bundle = ''BUNDLE'', tx_Persistence = Some False\<rparr>"

definition example_env :: "unit Env" where
  "example_env =
     \<lparr>GetTransactionsToApprove =
        (\<lambda>d r w. (Inr \<lparr>TrunkTransaction = ''TRUNK'', BranchTransaction = ''BRANCH''\<rparr>, w)),
      CheckConsistency = (\<lambda>h w. (Inr False, w)),
      GetTrytes = (\<lambda>h w. (Inr [h], w)),
      AttachToTangle = (\<lambda>trunk branch m ts w. (Inr ts, w)),
      StoreAndBroadcast = (\<lambda>ts w. (Inr ts, w)),
      PrepareTransfers = (\<lambda>seed ts opts w. (Inr [''PROMOTION''], w)),
      GetLatestSolidSubtangleMilestone = (\<lambda>w. (Inr ''MILESTONE'', w)),
      GetBalances = (\<lambda>addrs threshold tip w. (Inr (map (\<lambda>_. 0) addrs), w)),
      GetBundlesFromAddresses = (\<lambda>addrs w. (Inr [], w)),
      clock_Now = (\<lambda>w. (Inr 1120000000000, w)),
      TimeSource_Time = (\<lambda>w. (Inr 1120000000000, w)),
      SeedProv_Seed = (\<lambda>w. (Inr ''SEED'', w)),
      store_GetPendingTransfers = (\<lambda>a w. (Inr [], w)),
      store_AddTailHash = (\<lambda>a key t w. (Some ErrPendingTransferNotFound, w)),
      store_GetDepositRequests = (\<lambda>a w. (Inr [], w)),
      store_WriteIndex = (\<lambda>a i w. (None, w)),
      store_AddDepositRequest = (\<lambda>a i r w. (None, w)),
      store_RemoveDepositRequest = (\<lambda>a i w. (None, w)),
      store_AddPendingTransfer = (\<lambda>a h ts is w. (None, w)),
      AsTransactionObject = (\<lambda>t. Inr (example_tx t)),
      AsTransactionObjects = (\<lambda>ts. Inr (map example_tx ts)),
      TransactionsToTrytes = (\<lambda>b. Inr (map tx_Hash b)),
      PendingTransferToBundle = (\<lambda>pt. Inr (map example_tx (Bundle pt))),
      GenerateAddress = (\<lambda>seed i sec checksum. (''ADDRESS'' @ FormatUint i, None))\<rparr>"

definition example_promoter :: Promoter where
  "example_promoter = \<lparr>depth = 3, mwm = 14, accID = ''ACC''\<rparr>"

definition example_state :: "unit state" where
  "example_state = \<lparr>world = (), trace = []\<rparr>"

text \<open>The same world with a node for which every reference is too old.\<close>

definition too_old_env :: "unit Env" where
  "too_old_env =
     example_env\<lparr>GetTransactionsToApprove := (\<lambda>d r w. (Inl (Opaque ''reference transaction is too old''), w))\<rparr>"

text \<open>The same world with a node that finds every tail but \<open>TAILC\<close> consistent.\<close>

definition consistent_env :: "unit Env" where
  "consistent_env = example_env\<lparr>CheckConsistency := (\<lambda>h w. (Inr (h \<noteq> ''TAILC''), w))\<rparr>"

section \<open>Input selection (\<open>account/account.go\<close>)\<close>

text \<open>The fields of the account and of its settings that the modelled code reads.\<close>

record account =
  acc_id :: string
  running :: bool
  lastKeyIndex :: u64

record Settings =
  setts_MWM :: u64
  setts_Depth :: u64
  setts_SecurityLevel :: nat

text \<open>
  \<open>hasIncomingConsistentValueTransfer\<close>: the loop over the bundles, with the set of
  bundle hashes seen confirmed. Reading the first transaction of an empty bundle, or the
  persistence flag through a nil pointer, panics.
\<close>

fun hasIncomingLoop ::
  "'w Env \<Rightarrow> Hash \<Rightarrow> Transactions list \<Rightarrow> Hash list \<Rightarrow> 'w state \<Rightarrow>
   (bool \<times> error option) outcome \<times> 'w state" where
  "hasIncomingLoop env addr [] persisted s = (Return (False, None), s)"
| "hasIncomingLoop env addr (bndl # bndls) persisted s =
     (case bndl of
        [] \<Rightarrow> (Panic, s)
      | tx0 # _ \<Rightarrow>
          (case tx_Persistence tx0 of
             None \<Rightarrow> (Panic, s)
           | Some isPersisted \<Rightarrow>
               if isPersisted then hasIncomingLoop env addr bndls (tx_Bundle tx0 # persisted) s
               else if tx_Bundle tx0 \<in> set persisted then hasIncomingLoop env addr bndls persisted s
               else if \<not> list_ex (\<lambda>tx. tx_Value tx > 0 \<and> tx_Address tx = addr) bndl
                    then hasIncomingLoop env addr bndls persisted s
               else (case call (CallCheckConsistency (tx_Hash tx0)) (CheckConsistency env (tx_Hash tx0)) s of
                       (Inl err, s1) \<Rightarrow>
                         (Return (False, Some (Wrap err
                            (''unable to check consistency of tx '' @ tx_Hash tx0 @
                             '' in incoming consistent transfer check''))), s1)
                     | (Inr consistent, s1) \<Rightarrow>
                         if consistent then (Return (True, None), s1)
                         else hasIncomingLoop env addr bndls persisted s1)))"

definition hasIncomingConsistentValueTransfer ::
  "'w Env \<Rightarrow> Hash \<Rightarrow> 'w state \<Rightarrow> (bool \<times> error option) outcome \<times> 'w state" where
  "hasIncomingConsistentValueTransfer env addr s =
     (case call (CallGetBundlesFromAddresses [addr]) (GetBundlesFromAddresses env [addr]) s of
        (Inl err, s1) \<Rightarrow> (Return (False, Some err), s1)
      | (Inr bndls, s1) \<Rightarrow> hasIncomingLoop env addr bndls [] s1)"

text \<open>The four lists built by the loop over the deposit requests.\<close>

record partition =
  primaryAddrs :: "Hash list"
  primarySelection :: "(u64 \<times> StoredDepositRequest) list"
  secondaryAddrs :: "Hash list"
  secondarySelection :: "(u64 \<times> StoredDepositRequest) list"

definition add_primary :: "Hash \<Rightarrow> u64 \<times> StoredDepositRequest \<Rightarrow> partition \<Rightarrow> partition" where
  "add_primary addr sel parts =
     parts\<lparr>primaryAddrs := primaryAddrs parts @ [addr], primarySelection := primarySelection parts @ [sel]\<rparr>"

definition add_secondary :: "Hash \<Rightarrow> u64 \<times> StoredDepositRequest \<Rightarrow> partition \<Rightarrow> partition" where
  "add_secondary addr sel parts =
     parts\<lparr>secondaryAddrs := secondaryAddrs parts @ [addr], secondarySelection := secondarySelection parts @ [sel]\<rparr>"

text \<open>
  The loop over all allocated deposit requests. A request without timeout is a remainder
  address; one without expected amount as well makes the function panic.
\<close>

fun partitionRequests ::
  "'w Env \<Rightarrow> Trytes \<Rightarrow> Time \<Rightarrow> (u64 \<times> StoredDepositRequest) list \<Rightarrow> partition \<Rightarrow> partition outcome" where
  "partitionRequests env seed now [] parts = Return parts"
| "partitionRequests env seed now ((keyIndex, req) # rest) parts =
     (let addr = fst (GenerateAddress env seed keyIndex (SecurityLevel req) True)
      in case TimeoutAt (Req req) of
           None \<Rightarrow>
             (case ExpectedAmount (Req req) of
                None \<Rightarrow> Panic
              | Some _ \<Rightarrow> partitionRequests env seed now rest (add_primary addr (keyIndex, req) parts))
         | Some timeoutAt \<Rightarrow>
             if now > timeoutAt
             then partitionRequests env seed now rest (add_secondary addr (keyIndex, req) parts)
             else if MultiUse (Req req)
                  then (if ExpectedAmount (Req req) = None
                        then partitionRequests env seed now rest parts
                        else partitionRequests env seed now rest (add_primary addr (keyIndex, req) parts))
             else partitionRequests env seed now rest (add_primary addr (keyIndex, req) parts))"

text \<open>The running sum, the inputs and the indices to remove.\<close>

record selected =
  sel_sum :: u64
  sel_inputs :: "Input list"
  sel_toRemove :: "u64 list"

definition markForRemoval :: "bool \<Rightarrow> u64 \<Rightarrow> selected \<Rightarrow> selected" where
  "markForRemoval balanceCheck keyIndex st =
     (if balanceCheck then st else st\<lparr>sel_toRemove := sel_toRemove st @ [keyIndex]\<rparr>)"

definition addAsInput :: "bool \<Rightarrow> Input \<Rightarrow> selected \<Rightarrow> selected" where
  "addAsInput balanceCheck input st =
     (if balanceCheck then st else st\<lparr>sel_inputs := sel_inputs st @ [input]\<rparr>)"

text \<open>
  The loop \<open>for i := range primarySelection\<close>, over the list of its indices. Reading a
  balance or an address beyond the end of its slice panics.
\<close>

fun primaryLoop ::
  "bool \<Rightarrow> u64 \<Rightarrow> u64 list \<Rightarrow> Hash list \<Rightarrow> (u64 \<times> StoredDepositRequest) list \<Rightarrow> nat list \<Rightarrow>
   selected \<Rightarrow> selected outcome" where
  "primaryLoop balanceCheck transferValue balances addrs selection [] st = Return st"
| "primaryLoop balanceCheck transferValue balances addrs selection (i # is) st =
     (if i \<ge> length balances then Panic
      else if (case ExpectedAmount (Req (snd (selection ! i))) of
                 None \<Rightarrow> False
               | Some expected \<Rightarrow> balances ! i < expected)
           then primaryLoop balanceCheck transferValue balances addrs selection is st
      else (let st1 = st\<lparr>sel_sum := sel_sum st + balances ! i\<rparr>
            in if balances ! i = 0
               then primaryLoop balanceCheck transferValue balances addrs selection is st1
               else if i \<ge> length addrs then Panic
               else (let st2 = markForRemoval balanceCheck (fst (selection ! i))
                                 (addAsInput balanceCheck
                                    \<lparr>in_Address = addrs ! i, in_KeyIndex = fst (selection ! i),
                                     in_Balance = balances ! i,
                                     in_Security = SecurityLevel (snd (selection ! i))\<rparr> st1)
                     in if sel_sum st2 \<ge> transferValue \<and> \<not> balanceCheck then Return st2
                        else primaryLoop balanceCheck transferValue balances addrs selection is st2)))"

text \<open>The loop \<open>for i := range secondarySelection\<close>, over the timed out addresses.\<close>

fun secondaryLoop ::
  "'w Env \<Rightarrow> bool \<Rightarrow> u64 \<Rightarrow> u64 list \<Rightarrow> nat \<Rightarrow> Hash list \<Rightarrow> (u64 \<times> StoredDepositRequest) list \<Rightarrow>
   nat list \<Rightarrow> selected \<Rightarrow> 'w state \<Rightarrow> selected outcome \<times> 'w state" where
  "secondaryLoop env balanceCheck transferValue balances startPosSecondary addrs selection [] st s =
     (Return st, s)"
| "secondaryLoop env balanceCheck transferValue balances startPosSecondary addrs selection (i # is) st s =
     (if i \<ge> length addrs \<or> startPosSecondary + i \<ge> length balances then (Panic, s)
      else if balances ! (startPosSecondary + i) = 0
           then (case hasIncomingConsistentValueTransfer env (addrs ! i) s of
                   (Panic, s1) \<Rightarrow> (Panic, s1)
                 | (Return (has, err), s1) \<Rightarrow>
                     if has \<or> err \<noteq> None
                     then secondaryLoop env balanceCheck transferValue balances startPosSecondary addrs selection is st s1
                     else secondaryLoop env balanceCheck transferValue balances startPosSecondary addrs selection is
                            (markForRemoval balanceCheck (fst (selection ! i)) st) s1)
      else (let st1 = markForRemoval balanceCheck (fst (selection ! i)) st;
                st2 = st1\<lparr>sel_sum := sel_sum st1 + balances ! (startPosSecondary + i)\<rparr>;
                st3 = addAsInput balanceCheck
                        \<lparr>in_Address = addrs ! i, in_KeyIndex = fst (selection ! i),
                         in_Balance = balances ! (startPosSecondary + i),
                         in_Security = SecurityLevel (snd (selection ! i))\<rparr> st2
            in if sel_sum st3 \<ge> transferValue \<and> \<not> balanceCheck then (Return st3, s)
               else secondaryLoop env balanceCheck transferValue balances startPosSecondary addrs selection is st3 s))"

text \<open>
  \<open>defaultInputSelection\<close>. The result is the tuple the Go function returns: the sum,
  the inputs, the indices to remove and the error (\<open>None\<close> is nil). A nil slice is the
  empty list.
\<close>

definition defaultInputSelection ::
  "'w Env \<Rightarrow> account \<Rightarrow> u64 \<Rightarrow> bool \<Rightarrow> 'w state \<Rightarrow>
   (u64 \<times> Input list \<times> u64 list \<times> error option) outcome \<times> 'w state" where
  "defaultInputSelection env acc transferValue balanceCheck s =
     (case call (CallGetDepositRequests (acc_id acc)) (store_GetDepositRequests env (acc_id acc)) s of
        (Inl err, s1) \<Rightarrow>
          (Return (0, [], [], Some (Wrap err ''unable to load account state for input selection'')), s1)
      | (Inr depositRequests, s1) \<Rightarrow>
          if length depositRequests = 0
          then (if balanceCheck then (Return (0, [], [], None), s1)
                else (Return (0, [], [], Some ErrInsufficientBalance), s1))
          else
          (case call CallGetLatestSolidSubtangleMilestone (GetLatestSolidSubtangleMilestone env) s1 of
             (Inl err, s2) \<Rightarrow>
               (Return (0, [], [], Some (Wrap err
                  ''unable to fetch latest solid subtangle milestone for input selection'')), s2)
           | (Inr subtangleHash, s2) \<Rightarrow>
          (case call CallTime (TimeSource_Time env) s2 of
             (Inl err, s3) \<Rightarrow>
               (Return (0, [], [], Some (Wrap err ''unable to get time for doing input selection'')), s3)
           | (Inr now, s3) \<Rightarrow>
          (case call CallSeed (SeedProv_Seed env) s3 of
             (Inl err, s4) \<Rightarrow>
               (Return (0, [], [], Some (Wrap err
                  ''unable to get seed from seed provider for doing input selection'')), s4)
           | (Inr seed, s4) \<Rightarrow>
          (case partitionRequests env seed now depositRequests
                  \<lparr>primaryAddrs = [], primarySelection = [], secondaryAddrs = [], secondarySelection = []\<rparr> of
             Panic \<Rightarrow> (Panic, s4)
           | Return parts \<Rightarrow>
          (case call (CallGetBalances (primaryAddrs parts @ secondaryAddrs parts) 100 subtangleHash)
                  (GetBalances env (primaryAddrs parts @ secondaryAddrs parts) 100 subtangleHash) s4 of
             (Inl err, s5) \<Rightarrow>
               (Return (0, [], [], Some (Wrap err
                  ''unable to fetch balances of primary selected addresses for input selection'')), s5)
           | (Inr balances, s5) \<Rightarrow>
          (case primaryLoop balanceCheck transferValue balances (primaryAddrs parts) (primarySelection parts)
                  [0 ..< length (primarySelection parts)]
                  \<lparr>sel_sum = 0, sel_inputs = [], sel_toRemove = []\<rparr> of
             Panic \<Rightarrow> (Panic, s5)
           | Return st \<Rightarrow>
          (case (if sel_sum st < transferValue \<or> balanceCheck
                 then secondaryLoop env balanceCheck transferValue balances (length (primarySelection parts))
                        (secondaryAddrs parts) (secondarySelection parts)
                        [0 ..< length (secondarySelection parts)] st s5
                 else (Return st, s5)) of
             (Panic, s6) \<Rightarrow> (Panic, s6)
           | (Return st, s6) \<Rightarrow>
               if balanceCheck then (Return (sel_sum st, [], [], None), s6)
               else if sel_sum st < transferValue
                    then (Return (0, [], [], Some ErrInsufficientBalance), s6)
               else (Return (sel_sum st, sel_inputs st, sel_toRemove st, None), s6)))))))))"

text \<open>
  The concrete world with a store that holds two requests: an open one with a balance to
  be found, and a remainder request that lacks its expected amount.
\<close>

definition open_request :: StoredDepositRequest where
  "open_request =
     \<lparr>SecurityLevel = 2, Req = \<lparr>TimeoutAt = Some 5000000000000, MultiUse = False, ExpectedAmount = None\<rparr>\<rparr>"

definition malformed_request :: StoredDepositRequest where
  "malformed_request =
     \<lparr>SecurityLevel = 2, Req = \<lparr>TimeoutAt = None, MultiUse = False, ExpectedAmount = None\<rparr>\<rparr>"

definition malformed_env :: "unit Env" where
  "malformed_env =
     example_env\<lparr>store_GetDepositRequests := (\<lambda>a w. (Inr [(1, open_request), (2, malformed_request)], w))\<rparr>"

definition example_account :: account where
  "example_account = \<lparr>acc_id = ''ACC'', running = True, lastKeyIndex = 2\<rparr>"

text \<open>
  The concrete world with a store that holds one open request, on whose address the node
  reports a balance of 100.
\<close>

definition funded_env :: "unit Env" where
  "funded_env =
     example_env\<lparr>store_GetDepositRequests := (\<lambda>a w. (Inr [(1, open_request)], w)),
                 GetBalances := (\<lambda>addrs threshold tip w. (Inr (map (\<lambda>_. 100) addrs), w))\<rparr>"

section \<open>The send pipeline (\<open>account/account.go\<close>)\<close>

type_synonym Recipients = "Transfer list"

text \<open>\<open>Recipients.Sum\<close>: the values are added as \<open>uint64\<close>.\<close>

definition Sum :: "Recipients \<Rightarrow> u64" where
  "Sum recps = foldl (\<lambda>acc target. acc + tr_Value target) 0 recps"

text \<open>The strategy stored in the settings; \<open>defaultInputSelection\<close> is the default.\<close>

type_synonym 'w InputSelectionFunc =
  "account \<Rightarrow> u64 \<Rightarrow> bool \<Rightarrow> 'w state \<Rightarrow>
   (u64 \<times> Input list \<times> u64 list \<times> error option) outcome \<times> 'w state"

text \<open>
  \<open>allocateDepositRequest\<close>. The key index of the account is incremented before the
  address is derived and written to the store; the account is returned with the result.
\<close>

definition allocateDepositRequest ::
  "'w Env \<Rightarrow> Settings \<Rightarrow> account \<Rightarrow> Request \<Rightarrow> 'w state \<Rightarrow> (error + Conditions) \<times> account \<times> 'w state" where
  "allocateDepositRequest env setts acc req s =
     (case call CallSeed (SeedProv_Seed env) s of
        (Inl err, s1) \<Rightarrow> (Inl err, acc, s1)
      | (Inr seed, s1) \<Rightarrow>
          (let acc1 = acc\<lparr>lastKeyIndex := lastKeyIndex acc + 1\<rparr>
           in case GenerateAddress env seed (lastKeyIndex acc1) (setts_SecurityLevel setts) True of
                (addr, Some err) \<Rightarrow>
                  (Inl (Wrap err ''unable to generate address in address gen. function''), acc1, s1)
              | (addr, None) \<Rightarrow>
                  (case call (CallWriteIndex (acc_id acc1) (lastKeyIndex acc1))
                          (store_WriteIndex env (acc_id acc1) (lastKeyIndex acc1)) s1 of
                     (Some err, s2) \<Rightarrow>
                       (Inl (Wrap err (''unable to store next index ('' @ FormatUint (lastKeyIndex acc1)
                                        @ '') in the store'')), acc1, s2)
                   | (None, s2) \<Rightarrow>
                       (let storedReq = \<lparr>SecurityLevel = setts_SecurityLevel setts, Req = req\<rparr>
                        in case call (CallAddDepositRequest (acc_id acc1) (lastKeyIndex acc1) storedReq)
                                  (store_AddDepositRequest env (acc_id acc1) (lastKeyIndex acc1) storedReq) s2 of
                             (Some err, s3) \<Rightarrow> (Inl err, acc1, s3)
                           | (None, s3) \<Rightarrow>
                               (Inr \<lparr>TimeoutAt = TimeoutAt req, MultiUse = MultiUse req,
                                     ExpectedAmount = ExpectedAmount req, Address = addr\<rparr>, acc1, s3)))))"

text \<open>
  The steps of \<open>send\<close> from input selection to the commit \<open>AddPendingTransfer\<close>. The
  result is the error of the step that failed, or the trytes after the proof of work when
  the pending transfer has been stored; with it come the remainder address allocated so
  far (\<open>None\<close> is the nil pointer) and the account. \<open>UnixNano() / int64(time.Second)\<close>
  truncates towards zero.
\<close>

definition unix_seconds :: "Time \<Rightarrow> u64" where
  "unix_seconds t = of_int (sgn t * (\<bar>t\<bar> div 1000000000))"

definition prepareAndCommit ::
  "'w Env \<Rightarrow> Settings \<Rightarrow> 'w InputSelectionFunc \<Rightarrow> account \<Rightarrow> Trytes \<Rightarrow> Time \<Rightarrow> Recipients \<Rightarrow> 'w state \<Rightarrow>
   (error + Trytes list) outcome \<times> Hash option \<times> account \<times> 'w state" where
  "prepareAndCommit env setts strat acc seed currentTime targets s =
     (let transferSum = Sum targets;
          selected =
            (if transferSum > 0
             then (case strat acc transferSum False s of
                     (Panic, s1) \<Rightarrow> (Panic, None, acc, s1)
                   | (Return (sm, ins, rem, Some err), s1) \<Rightarrow>
                       (Return (Inl (Wrap err ''failed to perform input selection in send op.'')), None, acc, s1)
                   | (Return (sm, ins, rem, None), s1) \<Rightarrow>
                       if sm > transferSum
                       then (case allocateDepositRequest env setts acc
                                    \<lparr>TimeoutAt = None, MultiUse = False, ExpectedAmount = Some (sm - transferSum)\<rparr> s1 of
                               (Inl err, acc1, s2) \<Rightarrow>
                                 (Return (Inl (Wrap err ''unable to generate remainder address in send op.'')),
                                  None, acc1, s2)
                             | (Inr depCond, acc1, s2) \<Rightarrow>
                                 (Return (Inr (ins, rem)), Some (Address depCond), acc1, s2))
                       else (Return (Inr (ins, rem)), None, acc, s1))
             else (Return (Inr ([], [])), None, acc, s))
      in case selected of
           (Panic, remainderAddress, acc1, s2) \<Rightarrow> (Panic, remainderAddress, acc1, s2)
         | (Return (Inl err), remainderAddress, acc1, s2) \<Rightarrow> (Return (Inl err), remainderAddress, acc1, s2)
         | (Return (Inr (inputs, forRemoval)), remainderAddress, acc1, s2) \<Rightarrow>
             (let opts = \<lparr>Inputs = inputs, RemainderAddress = remainderAddress,
                          Timestamp = Some (unix_seconds currentTime)\<rparr>
              in case call (CallPrepareTransfers targets opts) (PrepareTransfers env seed targets opts) s2 of
                   (Inl err, s3) \<Rightarrow>
                     (Return (Inl (Wrap err ''unable to prepare transfers in send op.'')), remainderAddress, acc1, s3)
                 | (Inr bundleTrytes, s3) \<Rightarrow>
              (case call (CallGetTransactionsToApprove (setts_Depth setts) None)
                      (GetTransactionsToApprove env (setts_Depth setts) None) s3 of
                   (Inl err, s4) \<Rightarrow>
                     (Return (Inl (Wrap err ''unable to GTTA in send op.'')), remainderAddress, acc1, s4)
                 | (Inr tips, s4) \<Rightarrow>
              (case call (CallAttachToTangle (TrunkTransaction tips) (BranchTransaction tips) (setts_MWM setts) bundleTrytes)
                      (AttachToTangle env (TrunkTransaction tips) (BranchTransaction tips) (setts_MWM setts) bundleTrytes) s4 of
                   (Inl err, s5) \<Rightarrow>
                     (Return (Inl (Wrap err ''performing PoW in send op. failed'')), remainderAddress, acc1, s5)
                 | (Inr powedTrytes, s5) \<Rightarrow>
              (case powedTrytes of
                 [] \<Rightarrow> (Panic, remainderAddress, acc1, s5)
               | t # _ \<Rightarrow>
              (case AsTransactionObject env t of
                 Inl err \<Rightarrow> (Return (Inl err), remainderAddress, acc1, s5)
               | Inr tailTx \<Rightarrow>
              (case call (CallAddPendingTransfer (acc_id acc1) (tx_Hash tailTx) powedTrytes forRemoval)
                      (store_AddPendingTransfer env (acc_id acc1) (tx_Hash tailTx) powedTrytes forRemoval) s5 of
                 (Some err, s6) \<Rightarrow>
                   (Return (Inl (Wrap err ''unable to store pending transfer in send op.'')), remainderAddress, acc1, s6)
               | (None, s6) \<Rightarrow> (Return (Inr powedTrytes), remainderAddress, acc1, s6))))))))"

text \<open>The steps of \<open>send\<close> after the commit: broadcast and the event.\<close>

definition broadcast :: "'w Env \<Rightarrow> Trytes list \<Rightarrow> 'w state \<Rightarrow> (error + Transactions) \<times> 'w state" where
  "broadcast env powedTrytes s =
     (case call (CallStoreAndBroadcast powedTrytes) (StoreAndBroadcast env powedTrytes) s of
        (Inl err, s1) \<Rightarrow> (Inl (Wrap err ''unable to store/broadcast bundle in send op.''), s1)
      | (Inr bndlTrytes, s1) \<Rightarrow>
          (case AsTransactionObjects env bndlTrytes of
             Inl err \<Rightarrow> (Inl err, s1)
           | Inr bndl \<Rightarrow> (Inr bndl, emit (EventSendingTransfer bndl) s1)))"

text \<open>
  The deferred function of \<open>send\<close>: it removes the remainder deposit request again,
  unless no remainder address was allocated or the commit succeeded. The loop looks for the
  key index whose address is the first 81 trytes of the remainder address; slicing a
  shorter address panics.
\<close>

fun findRemainderKeyIndex :: "'w Env \<Rightarrow> Trytes \<Rightarrow> Hash \<Rightarrow> (u64 \<times> StoredDepositRequest) list \<Rightarrow> u64 option" where
  "findRemainderKeyIndex env seed croppedRemainderAddr [] = None"
| "findRemainderKeyIndex env seed croppedRemainderAddr ((keyIndex, req) # reqs) =
     (case GenerateAddress env seed keyIndex (SecurityLevel req) False of
        (addr, Some err) \<Rightarrow> findRemainderKeyIndex env seed croppedRemainderAddr reqs
      | (addr, None) \<Rightarrow>
          if addr = croppedRemainderAddr then Some keyIndex
          else findRemainderKeyIndex env seed croppedRemainderAddr reqs)"

definition cleanup ::
  "'w Env \<Rightarrow> account \<Rightarrow> Trytes \<Rightarrow> Hash option \<Rightarrow> bool \<Rightarrow> 'w state \<Rightarrow> unit outcome \<times> 'w state" where
  "cleanup env acc seed remainderAddress success s =
     (case remainderAddress of
        None \<Rightarrow> (Return (), s)
      | Some remainderAddr \<Rightarrow>
          if success then (Return (), s)
          else (case call (CallGetDepositRequests (acc_id acc)) (store_GetDepositRequests env (acc_id acc)) s of
                  (Inl err, s1) \<Rightarrow> (Return (), s1)
                | (Inr reqs, s1) \<Rightarrow>
                    if length remainderAddr < 81 then (Panic, s1)
                    else (case findRemainderKeyIndex env seed (take 81 remainderAddr) reqs of
                            None \<Rightarrow> (Return (), s1)
                          | Some remainderAddrKeyIndex \<Rightarrow>
                              (case call (CallRemoveDepositRequest (acc_id acc) remainderAddrKeyIndex)
                                      (store_RemoveDepositRequest env (acc_id acc) remainderAddrKeyIndex) s1 of
                                 (Some err, s2) \<Rightarrow>
                                   (Return (), emit (EventError (Wrap err
                                      ''unable to cleanup allocated remainder addr during failed send op.'')) s2)
                               | (None, s2) \<Rightarrow> (Return (), s2)))))"

text \<open>
  \<open>send\<close>: seed and time, then the steps up to the commit, the broadcast when the commit
  succeeded, and in every case the deferred cleanup, which also runs when the body panics.
\<close>

definition account_send ::
  "'w Env \<Rightarrow> Settings \<Rightarrow> 'w InputSelectionFunc \<Rightarrow> account \<Rightarrow> Recipients \<Rightarrow> 'w state \<Rightarrow>
   (error + Transactions) outcome \<times> account \<times> 'w state" where
  "account_send env setts strat acc targets s =
     (case call CallSeed (SeedProv_Seed env) s of
        (Inl err, s1) \<Rightarrow>
          (Return (Inl (Wrap err ''unable to get seed from seed provider in send op.'')), acc, s1)
      | (Inr seed, s1) \<Rightarrow>
          (case call CallTime (TimeSource_Time env) s1 of
             (Inl err, s2) \<Rightarrow>
               (Return (Inl (Wrap err ''unable to get current time in send op.'')), acc, s2)
           | (Inr currentTime, s2) \<Rightarrow>
               (case prepareAndCommit env setts strat acc seed currentTime targets s2 of
                  (Panic, remainderAddress, acc1, s3) \<Rightarrow>
                    (Panic, acc1, snd (cleanup env acc1 seed remainderAddress False s3))
                | (Return (Inl err), remainderAddress, acc1, s3) \<Rightarrow>
                    (case cleanup env acc1 seed remainderAddress False s3 of
                       (Panic, s4) \<Rightarrow> (Panic, acc1, s4)
                     | (Return _, s4) \<Rightarrow> (Return (Inl err), acc1, s4))
                | (Return (Inr powedTrytes), remainderAddress, acc1, s3) \<Rightarrow>
                    (case broadcast env powedTrytes s3 of
                       (res, s4) \<Rightarrow>
                         (case cleanup env acc1 seed remainderAddress True s4 of
                            (Panic, s5) \<Rightarrow> (Panic, acc1, s5)
                          | (Return _, s5) \<Rightarrow> (Return res, acc1, s5))))))"

text \<open>
  \<open>Send\<close>: the checks, then \<open>send\<close>.

  Modelled from the spec: \<open>guards.IsTrytesOfExactLength\<close> is not among the sources; each
  recipient address must be 90 trytes (81 and the checksum).
\<close>

definition IsTrytesOfExactLength :: "Trytes \<Rightarrow> nat \<Rightarrow> bool" where
  "IsTrytesOfExactLength trytes len =
     (length trytes = len \<and> list_all (\<lambda>c. c \<in> set ''9ABCDEFGHIJKLMNOPQRSTUVWXYZ'') trytes)"

definition Send ::
  "'w Env \<Rightarrow> Settings \<Rightarrow> 'w InputSelectionFunc \<Rightarrow> account \<Rightarrow> Recipients \<Rightarrow> 'w state \<Rightarrow>
   (error + Transactions) outcome \<times> account \<times> 'w state" where
  "Send env setts strat acc recipients s =
     (if \<not> running acc then (Return (Inl ErrAccountNotRunning), acc, s)
      else if length recipients = 0 then (Return (Inl ErrEmptyRecipients), acc, s)
      else if \<not> list_all (\<lambda>target. IsTrytesOfExactLength (tr_Address target) (81 + 9)) recipients
           then (Return (Inl ErrInvalidAddress), acc, s)
      else account_send env setts strat acc recipients s)"

text \<open>
  The concrete world for a send: the store holds one open request with a balance of 100,
  and the node refuses the broadcast.
\<close>

definition example_settings :: Settings where
  "example_settings = \<lparr>setts_MWM = 14, setts_Depth = 3, setts_SecurityLevel = 2\<rparr>"

definition example_recipient :: Transfer where
  "example_recipient =
     \<lparr>tr_Address = ''ABCDEFGHIJKLMNOPQRSTUVWXYZ9ABCDEFGHIJKLMNOPQRSTUVWXYZ9ABCDEFGHIJKLMNOPQRSTUVWXYZ9ABCDEFGHI'',
      tr_Value = 60\<rparr>"

definition broadcast_fails_env :: "unit Env" where
  "broadcast_fails_env =
     funded_env\<lparr>StoreAndBroadcast := (\<lambda>ts w. (Inl (Opaque ''node unreachable''), w))\<rparr>"

section \<open>The sync-interval timer (package \<open>util\<close>)\<close>

text \<open>
  A \<open>time.Timer\<close> made by \<open>time.NewTimer\<close> delivers one value on its channel: it is
  armed, then the value waits in the channel, then the value has been received. The code
  never resets it. The field \<open>intervalTimer\<close> is \<open>None\<close> for the nil pointer; \<open>onError\<close>
  tells whether an error function was given.
\<close>

datatype timer = Armed | Expired | Drained

record SyncIntervalTimer =
  intervalTimer :: "timer option"
  onError :: bool

definition NewSyncIntervalTimer :: "int \<Rightarrow> bool \<Rightarrow> SyncIntervalTimer" where
  "NewSyncIntervalTimer interval onErrorGiven =
     \<lparr>intervalTimer = (if interval > 0 then Some Armed else None), onError = onErrorGiven\<rparr>"

text \<open>
  \<open>Start\<close> is a loop around a \<open>select\<close>. It is modelled by its steps: the loop is at
  the \<open>select\<close>, or it has handed over the token on \<open>sync\<close> and waits for it to come
  back, or it has left the loop. What makes it move comes from outside: the runtime lets
  the timer expire, a value is received from the timer's channel (with what \<open>f\<close> returns
  and whether a shutdown signal is ready right after), \<open>Pause\<close> takes the token,
  \<open>Resume\<close> returns it, \<open>Stop\<close> sends the shutdown signal. A step yields what the loop
  does: it calls \<open>f\<close>, calls \<open>onError\<close>, closes \<open>sync\<close>. \<open>None\<close> means that the
  step cannot happen in that state.
\<close>

datatype loc = AtSelect | AwaitingResume | Returned

datatype timer_event =
    TimerExpires
  | Tick "error option" bool
  | PauseTaken
  | Resumed
  | ShutdownSent

datatype timer_action = CallF | CallOnError error | CloseSync

text \<open>The loop \<open>exitA\<close>, entered when there is no timer.\<close>

fun loopA_step :: "SyncIntervalTimer \<Rightarrow> loc \<Rightarrow> timer_event \<Rightarrow> (timer_action list \<times> SyncIntervalTimer \<times> loc) option" where
  "loopA_step sit AtSelect PauseTaken = Some ([], sit, AwaitingResume)"
| "loopA_step sit AwaitingResume Resumed = Some ([], sit, AtSelect)"
| "loopA_step sit AtSelect ShutdownSent = Some ([CloseSync], sit, Returned)"
| "loopA_step sit _ _ = None"

text \<open>The loop \<open>exitB\<close>, entered when there is a timer.\<close>

fun loopB_step :: "SyncIntervalTimer \<Rightarrow> loc \<Rightarrow> timer_event \<Rightarrow> (timer_action list \<times> SyncIntervalTimer \<times> loc) option" where
  "loopB_step sit l TimerExpires =
     (if intervalTimer sit = Some Armed then Some ([], sit\<lparr>intervalTimer := Some Expired\<rparr>, l) else None)"
| "loopB_step sit AtSelect (Tick result shutdownReady) =
     (if intervalTimer sit = Some Expired
      then Some ([CallF]
                 @ (case result of None \<Rightarrow> [] | Some err \<Rightarrow> if onError sit then [CallOnError err] else [])
                 @ (if shutdownReady then [CloseSync] else []),
                 sit\<lparr>intervalTimer := Some Drained\<rparr>,
                 if shutdownReady then Returned else AtSelect)
      else None)"
| "loopB_step sit AtSelect PauseTaken = Some ([], sit, AwaitingResume)"
| "loopB_step sit AwaitingResume Resumed = Some ([], sit, AtSelect)"
| "loopB_step sit AtSelect ShutdownSent = Some ([CloseSync], sit, Returned)"
| "loopB_step sit _ _ = None"

definition Start_step :: "SyncIntervalTimer \<Rightarrow> loc \<Rightarrow> timer_event \<Rightarrow> (timer_action list \<times> SyncIntervalTimer \<times> loc) option" where
  "Start_step sit l ev = (if intervalTimer sit = None then loopA_step sit l ev else loopB_step sit l ev)"

text \<open>An execution of \<open>Start\<close>: the actions of a sequence of steps, each of which can happen.\<close>

fun Start_run :: "SyncIntervalTimer \<Rightarrow> loc \<Rightarrow> timer_event list \<Rightarrow> (timer_action list \<times> SyncIntervalTimer \<times> loc) option" where
  "Start_run sit l [] = Some ([], sit, l)"
| "Start_run sit l (ev # evs) =
     (case Start_step sit l ev of
        None \<Rightarrow> None
      | Some (acts, sit1, l1) \<Rightarrow>
          (case Start_run sit1 l1 evs of
             None \<Rightarrow> None
           | Some (acts1, sit2, l2) \<Rightarrow> Some (acts @ acts1, sit2, l2)))"

section \<open>Properties of the MongoDB store\<close>

lemma tails_ok_addToSet: "tails_ok h pt \<Longrightarrow> tails_ok h (pt\<lparr>Tails := addToSet (Tails pt) n\<rparr>)"
  by (simp add: tails_ok_def addToSet_def)

lemma addToSet_appends: "addToSet xs x = xs \<or> addToSet xs x = xs @ [x]"
  by (simp add: addToSet_def)

lemma tails_inv_upd:
  "tails_inv coll \<Longrightarrow> (\<And>h pt. PendingTransfers doc' h = Some pt \<Longrightarrow> tails_ok h pt) \<Longrightarrow>
   tails_inv (coll(a \<mapsto> doc'))"
  by (auto simp: tails_inv_def)

lemma tails_inv_del: "tails_inv coll \<Longrightarrow> tails_inv (coll(a := None))"
  by (auto simp: tails_inv_def)

lemma tails_inv_doc: "tails_inv coll \<Longrightarrow> coll a = Some doc \<Longrightarrow> PendingTransfers doc h = Some pt \<Longrightarrow> tails_ok h pt"
  by (auto simp: tails_inv_def)

lemma tails_inv_UpdateOne:
  assumes "tails_inv coll"
    and "\<And>doc h pt. coll a = Some doc \<Longrightarrow> flt doc \<Longrightarrow> PendingTransfers (mut doc) h = Some pt \<Longrightarrow> tails_ok h pt"
  shows "tails_inv (fst (err_only (UpdateOne drv coll a flt mut)))"
  using assms
  by (auto simp: UpdateOne_def err_only_def split: option.splits intro!: tails_inv_upd)

lemma tails_inv_LoadAccount: "tails_inv coll \<Longrightarrow> tails_inv (fst (LoadAccount d1 d2 coll a))"
  by (auto simp: LoadAccount_def newaccountstate_def split: option.splits intro!: tails_inv_upd)

lemma tails_inv_RemoveAccount: "tails_inv coll \<Longrightarrow> tails_inv (fst (RemoveAccount d coll a))"
  by (auto simp: RemoveAccount_def split: option.splits intro!: tails_inv_del)

lemma tails_inv_WriteIndex: "tails_inv coll \<Longrightarrow> tails_inv (fst (WriteIndex d coll a i))"
  unfolding WriteIndex_def by (rule tails_inv_UpdateOne) (auto dest: tails_inv_doc)

lemma tails_inv_AddDepositRequest: "tails_inv coll \<Longrightarrow> tails_inv (fst (AddDepositRequest d coll a i r))"
  unfolding AddDepositRequest_def by (rule tails_inv_UpdateOne) (auto dest: tails_inv_doc)

lemma tails_inv_RemoveDepositRequest: "tails_inv coll \<Longrightarrow> tails_inv (fst (RemoveDepositRequest d coll a i))"
  unfolding RemoveDepositRequest_def by (rule tails_inv_UpdateOne) (auto dest: tails_inv_doc)

lemma tails_inv_RemovePendingTransfer: "tails_inv coll \<Longrightarrow> tails_inv (fst (RemovePendingTransfer d coll a h))"
  unfolding RemovePendingTransfer_def
  by (rule tails_inv_UpdateOne) (auto dest: tails_inv_doc split: if_splits)

lemma tails_inv_AddPendingTransfer:
  "tails_inv coll \<Longrightarrow> Tails (conv ts) = [] \<Longrightarrow> tails_inv (fst (AddPendingTransfer conv d coll a h ts is))"
  unfolding AddPendingTransfer_def Let_def
  by (rule tails_inv_UpdateOne) (auto dest: tails_inv_doc simp: tails_ok_def split: if_splits)

lemma tails_inv_AddTailHash: "tails_inv coll \<Longrightarrow> tails_inv (fst (AddTailHash d coll a h n))"
  unfolding AddTailHash_def
  by (rule tails_inv_UpdateOne)
     (auto dest: tails_inv_doc simp: addToSet_tails_def tails_ok_addToSet split: if_splits option.splits)

lemma tails_inv_apply_op:
  "tails_inv coll \<Longrightarrow> (\<forall>b. Tails (conv b) = []) \<Longrightarrow> tails_inv (apply_op conv coll op)"
  by (cases op)
     (simp_all add: tails_inv_LoadAccount tails_inv_RemoveAccount tails_inv_WriteIndex
        tails_inv_AddDepositRequest tails_inv_RemoveDepositRequest tails_inv_RemovePendingTransfer
        tails_inv_AddPendingTransfer tails_inv_AddTailHash)

lemma tails_inv_foldl:
  "tails_inv coll \<Longrightarrow> (\<forall>b. Tails (conv b) = []) \<Longrightarrow> tails_inv (foldl (apply_op conv) coll ops)"
  by (induction ops arbitrary: coll) (simp_all add: tails_inv_apply_op)

lemma AddPendingTransfer_stores_origin_first:
  assumes "Tails (conv ts) = []" and "coll a = Some doc"
  shows "\<exists>doc' pt. fst (AddPendingTransfer conv None coll a h ts is) a = Some doc' \<and>
           PendingTransfers doc' h = Some pt \<and> Tails pt = [h]"
  using assms by (simp add: AddPendingTransfer_def UpdateOne_def err_only_def Let_def)

lemma AddTailHash_only_appends:
  assumes "fst (AddTailHash d coll a h n) a' = Some doc'" and "PendingTransfers doc' h' = Some pt'"
  shows "\<exists>doc pt. coll a' = Some doc \<and> PendingTransfers doc h' = Some pt \<and>
           (Tails pt' = Tails pt \<or> Tails pt' = Tails pt @ [n])"
  using assms
  by (auto simp: AddTailHash_def UpdateOne_def err_only_def addToSet_tails_def addToSet_def
           split: option.splits if_splits)

text \<open>
  Claim C8. In every store state produced from the empty collection by a sequence of store
  calls, every pending transfer has a non-empty tails list whose first element is the
  origin tail hash it is stored under. \<open>AddPendingTransfer\<close> on an existing account stores
  the record with the origin tail as its only tail, and after \<open>AddTailHash\<close> every
  record is a record that was there before, its tails unchanged or extended at the end by
  the new tail. The conversion from trytes (not among the sources) is assumed to yield a
  record without tails. Hashes are tryte strings, so a hash names one key of the document.
\<close>

theorem store_tails_invariant:
  assumes "\<forall>b. Tails (conv b) = []"
  shows "tails_inv (run_ops conv ops) \<and>
         (\<forall>coll a doc h ts is. coll a = Some doc \<longrightarrow>
            (\<exists>doc' pt. fst (AddPendingTransfer conv None coll a h ts is) a = Some doc' \<and>
               PendingTransfers doc' h = Some pt \<and> Tails pt = [h])) \<and>
         (\<forall>d coll a h n a' doc' h' pt'.
            fst (AddTailHash d coll a h n) a' = Some doc' \<longrightarrow> PendingTransfers doc' h' = Some pt' \<longrightarrow>
            (\<exists>doc pt. coll a' = Some doc \<and> PendingTransfers doc h' = Some pt \<and>
               (Tails pt' = Tails pt \<or> Tails pt' = Tails pt @ [n])))"
proof (intro conjI allI impI)
  show "tails_inv (run_ops conv ops)"
    unfolding run_ops_def using assms
    by (intro tails_inv_foldl) (simp_all add: tails_inv_def)
next
  fix coll :: collection and a doc h ts "is"
  assume "coll a = Some doc"
  with assms show "\<exists>doc' pt. fst (AddPendingTransfer conv None coll a h ts is) a = Some doc' \<and>
      PendingTransfers doc' h = Some pt \<and> Tails pt = [h]"
    by (intro AddPendingTransfer_stores_origin_first) simp_all
next
  fix d coll a h n a' doc' h' pt'
  assume "fst (AddTailHash d coll a h n) a' = Some doc'" "PendingTransfers doc' h' = Some pt'"
  then show "\<exists>doc pt. coll a' = Some doc \<and> PendingTransfers doc h' = Some pt \<and>
      (Tails pt' = Tails pt \<or> Tails pt' = Tails pt @ [n])"
    by (rule AddTailHash_only_appends)
qed

theorem store_tails_invariant_witness:
  "(\<forall>b. Tails (\<lparr>Bundle = b, Tails = []\<rparr>) = []) \<and>
   tails_inv (run_ops (\<lambda>b. \<lparr>Bundle = b, Tails = []\<rparr>)
      [OpLoadAccount None None ''ACC'',
       OpAddPendingTransfer None ''ACC'' ''TAILA'' [''TRYTES''] [],
       OpAddTailHash None ''ACC'' ''TAILA'' ''TAILB'']) \<and>
   map_option (\<lambda>doc. map_option Tails (PendingTransfers doc ''TAILA''))
     (run_ops (\<lambda>b. \<lparr>Bundle = b, Tails = []\<rparr>)
        [OpLoadAccount None None ''ACC'',
         OpAddPendingTransfer None ''ACC'' ''TAILA'' [''TRYTES''] [],
         OpAddTailHash None ''ACC'' ''TAILA'' ''TAILB''] ''ACC'')
     = Some (Some [''TAILA'', ''TAILB''])"
proof -
  have h: "\<forall>b. Tails (\<lparr>Bundle = b, Tails = []\<rparr>) = []" by simp
  have e: "map_option (\<lambda>doc. map_option Tails (PendingTransfers doc ''TAILA''))
     (run_ops (\<lambda>b. \<lparr>Bundle = b, Tails = []\<rparr>)
        [OpLoadAccount None None ''ACC'',
         OpAddPendingTransfer None ''ACC'' ''TAILA'' [''TRYTES''] [],
         OpAddTailHash None ''ACC'' ''TAILA'' ''TAILB''] ''ACC'')
     = Some (Some [''TAILA'', ''TAILB''])"
    by (simp add: run_ops_def LoadAccount_def AddPendingTransfer_def AddTailHash_def UpdateOne_def
          err_only_def newaccountstate_def addToSet_tails_def addToSet_def Let_def)
  from store_tails_invariant [OF h] h e show ?thesis by blast
qed

text \<open>
  Claim C2. On an account whose document holds no pending transfer under the origin tail,
  \<open>AddTailHash\<close> matches no document; the driver reports no error for that, and the method
  returns nil: it does not return \<open>ErrPendingTransferNotFound\<close>. The store is left as it
  was, so the record is not re-created.
\<close>

theorem AddTailHash_missing_transfer_returns_nil:
  "AddTailHash None [''ACC'' \<mapsto> newaccountstate\<lparr>ID := ''ACC''\<rparr>] ''ACC'' ''TAILA'' ''TAILB''
     = ([''ACC'' \<mapsto> newaccountstate\<lparr>ID := ''ACC''\<rparr>], None)"
  by (simp add: AddTailHash_def UpdateOne_def err_only_def newaccountstate_def)

text \<open>In general: the error returned is the driver's, and an absent record stays absent.\<close>

lemma AddTailHash_error_is_drivers: "snd (AddTailHash drv coll a h n) = drv"
  by (simp add: AddTailHash_def UpdateOne_def err_only_def split: option.splits)

lemma AddTailHash_absent_unchanged:
  "(\<And>doc. coll a = Some doc \<Longrightarrow> PendingTransfers doc h = None) \<Longrightarrow>
   fst (AddTailHash drv coll a h n) = coll"
  by (simp add: AddTailHash_def UpdateOne_def err_only_def split: option.splits)

section \<open>Properties of magnet links\<close>

text \<open>Whatever link is parsed, the conditions returned carry the empty address.\<close>

lemma ParseMagnetLink_no_address: "ParseMagnetLink s = Some (Inr c) \<Longrightarrow> Address c = []"
  by (auto simp: ParseMagnetLink_def Let_def split: option.splits sum.splits if_splits)

text \<open>
  Claim C1. The round trip fails. For conditions with a 90-tryte address, a timeout,
  the multi-use flag set and the expected amount 1000 held at the address 824633802888,
  the link is
  \<open>iota://<address>/?t=1550000000&m=true&am=824633802888\<close>
  and parsing it returns, without error, conditions whose address is empty and whose
  expected amount is 824633802888.
\<close>

lemma example_decimal: "decimal 824633802888 = ''824633802888''"
  by (simp add: decimal.simps digit_char_def)
lemma example_link_formatted:
  "AsMagnetLink 824633802888
     \<lparr>TimeoutAt = Some 1550000000000000000, MultiUse = True, ExpectedAmount = Some 1000,
      Address = ''ABCDEFGHIJKLMNOPQRSTUVWXYZ9ABCDEFGHIJKLMNOPQRSTUVWXYZ9ABCDEFGHIJKLMNOPQRSTUVWXYZ9ABCDEFGHI''\<rparr>
   = Return ''iota://ABCDEFGHIJKLMNOPQRSTUVWXYZ9ABCDEFGHIJKLMNOPQRSTUVWXYZ9ABCDEFGHIJKLMNOPQRSTUVWXYZ9ABCDEFGHI/?t=1550000000&m=true&am=824633802888''"
  by (simp add: AsMagnetLink_def Unix_def format_int_def format_bool_def decimal.simps digit_char_def)
lemma example_ParseUint: "ParseUint ''824633802888'' = Inr 824633802888"
  by (simp add: ParseUint_def is_digit_def)
lemma example_ParseInt: "ParseInt ''1550000000'' = Inr 1550000000"
  by (simp add: ParseInt_def is_digit_def)
lemma example_url_Parse: "url_Parse ''iota://ABCDEFGHIJKLMNOPQRSTUVWXYZ9ABCDEFGHIJKLMNOPQRSTUVWXYZ9ABCDEFGHIJKLMNOPQRSTUVWXYZ9ABCDEFGHI/?t=1550000000&m=true&am=824633802888''
  = Some \<lparr>Scheme = ''iota'', Host = ''ABCDEFGHIJKLMNOPQRSTUVWXYZ9ABCDEFGHIJKLMNOPQRSTUVWXYZ9ABCDEFGHIJKLMNOPQRSTUVWXYZ9ABCDEFGHI'', Path = ''/'', RawQuery = ''t=1550000000&m=true&am=824633802888''\<rparr>"
  by (simp add: url_Parse_def is_lower_def is_upper_def is_alnum_def is_digit_def is_plain_def Let_def)
lemma example_query_Get: "query_Get ''t=1550000000&m=true&am=824633802888'' ''t'' = ''1550000000''"
  "query_Get ''t=1550000000&m=true&am=824633802888'' ''m'' = ''true''"
  "query_Get ''t=1550000000&m=true&am=824633802888'' ''am'' = ''824633802888''"
  by (simp_all add: query_Get_def)
lemma example_link_parsed:
  "ParseMagnetLink ''iota://ABCDEFGHIJKLMNOPQRSTUVWXYZ9ABCDEFGHIJKLMNOPQRSTUVWXYZ9ABCDEFGHIJKLMNOPQRSTUVWXYZ9ABCDEFGHI/?t=1550000000&m=true&am=824633802888''
   = Some (Inr \<lparr>TimeoutAt = Some 1550000000000000000, MultiUse = True,
                ExpectedAmount = Some 824633802888, Address = []\<rparr>)"
  unfolding ParseMagnetLink_def example_url_Parse
  by (simp add: example_query_Get example_ParseUint example_ParseInt ConditionExpires_def ConditionMultiUse_def ConditionAmount_def AddressWithChecksumTrytesSize_def time_Unix_def)

theorem magnet_link_round_trip_fails:
  "(case AsMagnetLink 824633802888
           \<lparr>TimeoutAt = Some 1550000000000000000, MultiUse = True, ExpectedAmount = Some 1000,
            Address = ''ABCDEFGHIJKLMNOPQRSTUVWXYZ9ABCDEFGHIJKLMNOPQRSTUVWXYZ9ABCDEFGHIJKLMNOPQRSTUVWXYZ9ABCDEFGHI''\<rparr> of
      Panic \<Rightarrow> None
    | Return link \<Rightarrow> ParseMagnetLink link)
   = Some (Inr \<lparr>TimeoutAt = Some 1550000000000000000, MultiUse = True,
                ExpectedAmount = Some 824633802888, Address = []\<rparr>)"
  unfolding example_link_formatted outcome.case example_link_parsed by (rule refl)

section \<open>Properties of the promoter\<close>

subsection \<open>The promotion loop\<close>

lemma call_eq: "call a f s = (fst (f (world s)), \<lparr>world = snd (f (world s)), trace = trace s @ [a]\<rparr>)"
  by (simp add: call_def split: prod.splits)

lemma send_trace:
  "\<exists>r. trace (snd (send env p b tips s)) = trace s @ r \<and> list_all node_call r"
  by (auto simp: send_def call_eq split: sum.splits list.splits)

lemma promote_loop_trace:
  "\<exists>r. trace (snd (promote_loop env p tailTx d s)) =
          trace s @ CallGetTransactionsToApprove d (Some tailTx) # r \<and> list_all node_call r"
proof (induction env p tailTx d s rule: promote_loop.induct)
  case (1 env p tailTx d s)
  define s1 where "s1 = \<lparr>world = snd (GetTransactionsToApprove env d (Some tailTx) (world s)),
                  trace = trace s @ [CallGetTransactionsToApprove d (Some tailTx)]\<rparr>"
  define r where "r = fst (GetTransactionsToApprove env d (Some tailTx) (world s))"
  have c: "call (CallGetTransactionsToApprove d (Some tailTx)) (GetTransactionsToApprove env d (Some tailTx)) s = (r, s1)"
    by (simp add: call_eq s1_def r_def)
  show ?case
  proof (cases r)
    case (Inl err)
    show ?thesis
    proof (cases "Error err = referenceTooOldMsg \<and> \<not> d + 1 > maxDepth")
      case True
      from "1.IH" [OF c [symmetric] Inl] True
      obtain r' where "trace (snd (promote_loop env p tailTx (d + 1) s1)) =
          trace s1 @ CallGetTransactionsToApprove (d + 1) (Some tailTx) # r'" "list_all node_call r'"
        by blast
      then show ?thesis
        apply (subst promote_loop.simps)
        using True Inl c by (simp add: s1_def)
    next
      case False
      then show ?thesis
        apply (subst promote_loop.simps)
        using Inl c by (auto simp: s1_def)
    qed
  next
    case (Inr tips)
    define s2 where "s2 = \<lparr>world = snd (PrepareTransfers env emptySeed [EmptyTransfer]
                     \<lparr>Inputs = [], RemainderAddress = None, Timestamp = None\<rparr> (world s1)),
          trace = trace s1 @ [CallPrepareTransfers [EmptyTransfer] \<lparr>Inputs = [], RemainderAddress = None, Timestamp = None\<rparr>]\<rparr>"
    define r2 where "r2 = fst (PrepareTransfers env emptySeed [EmptyTransfer]
                     \<lparr>Inputs = [], RemainderAddress = None, Timestamp = None\<rparr> (world s1))"
    have c2: "call (CallPrepareTransfers [EmptyTransfer] \<lparr>Inputs = [], RemainderAddress = None, Timestamp = None\<rparr>)
                  (PrepareTransfers env emptySeed [EmptyTransfer]
                     \<lparr>Inputs = [], RemainderAddress = None, Timestamp = None\<rparr>) s1 = (r2, s2)"
      by (simp add: call_eq s2_def r2_def)
    have unf: "promote_loop env p tailTx d s =
       (case r2 of Inl err \<Rightarrow> (Return (Inl (Wrap err ''unable to prepare promotion bundle'')), s2)
        | Inr preparedBundle \<Rightarrow> send env p preparedBundle tips s2)"
      by (subst promote_loop.simps) (simp add: c Inr c2)
    show ?thesis
    proof (cases r2)
      case (Inl err)
      then show ?thesis unfolding unf by (simp add: s2_def s1_def)
    next
      case (Inr b)
      from send_trace [of env p b tips s2] obtain r' where
        "trace (snd (send env p b tips s2)) = trace s2 @ r'" "list_all node_call r'" by blast
      then show ?thesis unfolding unf using Inr by (simp add: s2_def s1_def)
    qed
  qed
qed

lemma promote_loop_too_old:
  assumes "call (CallGetTransactionsToApprove d (Some tailTx)) (GetTransactionsToApprove env d (Some tailTx)) s = (Inl err, s1)"
    and "Error err = referenceTooOldMsg"
  shows "promote_loop env p tailTx d s =
           (if d + 1 > maxDepth then (Return (Inl ErrUnpromotableTail), s1)
            else promote_loop env p tailTx (d + 1) s1)"
  using assms by (subst promote_loop.simps) simp

lemma promote_loop_other_error:
  assumes "call (CallGetTransactionsToApprove d (Some tailTx)) (GetTransactionsToApprove env d (Some tailTx)) s = (Inl err, s1)"
    and "Error err \<noteq> referenceTooOldMsg"
  shows "promote_loop env p tailTx d s = (Return (Inl err), s1)"
  using assms by (subst promote_loop.simps) simp

lemma promote_loop_tips:
  assumes "call (CallGetTransactionsToApprove d (Some tailTx)) (GetTransactionsToApprove env d (Some tailTx)) s = (Inr tips, s1)"
  shows "promote_loop env p tailTx d s =
          (case call (CallPrepareTransfers [EmptyTransfer] \<lparr>Inputs = [], RemainderAddress = None, Timestamp = None\<rparr>)
                  (PrepareTransfers env emptySeed [EmptyTransfer]
                     \<lparr>Inputs = [], RemainderAddress = None, Timestamp = None\<rparr>) s1 of
             (Inl err, s2) \<Rightarrow> (Return (Inl (Wrap err ''unable to prepare promotion bundle'')), s2)
           | (Inr preparedBundle, s2) \<Rightarrow> send env p preparedBundle tips s2)"
  using assms by (subst promote_loop.simps) simp

text \<open>
  When the node finds every reference too old, the loop started at a depth of at most 15
  calls tip selection once at each depth up to 15 and then gives up.
\<close>

lemma promote_loop_always_too_old:
  assumes old: "always_too_old env tailTx"
  shows "d \<le> maxDepth \<Longrightarrow>
         promote_loop env p tailTx d s =
           (Return (Inl ErrUnpromotableTail),
            \<lparr>world = world (snd (promote_loop env p tailTx d s)),
             trace = trace s @ map (\<lambda>k. CallGetTransactionsToApprove (of_nat k) (Some tailTx)) [unat d ..< 16]\<rparr>)"
proof (induction "15 - unat d" arbitrary: d s)
  case 0
  then have d15: "unat d = 15" by (simp add: maxDepth_def word_le_nat_alt)
  then have d: "d = 15" by (simp add: word_unat_eq_iff)
  obtain err where e: "fst (GetTransactionsToApprove env d (Some tailTx) (world s)) = Inl err"
    "Error err = referenceTooOldMsg" using old unfolding always_too_old_def by blast
  have c: "call (CallGetTransactionsToApprove d (Some tailTx)) (GetTransactionsToApprove env d (Some tailTx)) s
     = (Inl err, \<lparr>world = snd (GetTransactionsToApprove env d (Some tailTx) (world s)),
                  trace = trace s @ [CallGetTransactionsToApprove d (Some tailTx)]\<rparr>)"
    using e by (simp add: call_eq)
  show ?case
    unfolding promote_loop_too_old [OF c e(2)] using d by (simp add: maxDepth_def)
next
  case (Suc n)
  then have lt: "unat d < 15" by simp
  have m: "(- 1 :: u64) = 18446744073709551615" by simp
  have dn: "d \<noteq> - 1"
  proof
    assume "d = - 1"
    with m have "d = 18446744073709551615" by simp
    then have "unat d = 18446744073709551615" by simp
    with lt show False by simp
  qed
  then have u: "unat (d + 1) = Suc (unat d)" by (rule unat_succ)
  with lt have le: "d + 1 \<le> maxDepth" by (simp add: maxDepth_def word_le_nat_alt)
  obtain err where e: "fst (GetTransactionsToApprove env d (Some tailTx) (world s)) = Inl err"
    "Error err = referenceTooOldMsg" using old unfolding always_too_old_def by blast
  define s1 where "s1 = \<lparr>world = snd (GetTransactionsToApprove env d (Some tailTx) (world s)),
                  trace = trace s @ [CallGetTransactionsToApprove d (Some tailTx)]\<rparr>"
  have c: "call (CallGetTransactionsToApprove d (Some tailTx)) (GetTransactionsToApprove env d (Some tailTx)) s
     = (Inl err, s1)"
    using e by (simp add: call_eq s1_def)
  have n: "n = 15 - unat (d + 1)" using Suc.hyps(2) u by simp
  have step: "promote_loop env p tailTx d s = promote_loop env p tailTx (d + 1) s1"
    unfolding promote_loop_too_old [OF c e(2)] using le by (auto simp: not_less [symmetric])
  have up: "[unat d ..< 16] = unat d # [unat (d + 1) ..< 16]"
    using lt u by (simp add: upt_conv_Cons)
  show ?case
    unfolding step
    apply (subst Suc.hyps(1) [OF n le])
    apply (simp add: up s1_def)
    done
qed

text \<open>
  Claim C6. \<open>promote\<close> calls tip selection first at the configured depth. When the
  node's error reads exactly "reference transaction is too old", the depth is incremented;
  if it then exceeds \<open>maxDepth = 15\<close> the result is \<open>ErrUnpromotableTail\<close>, otherwise
  the call is repeated at the new depth. An error with any other message is returned as
  it is. Against a node that finds every reference too old, a promoter configured with a
  depth of at most 15 tries every depth from its own up to 15, once each, and fails with
  \<open>ErrUnpromotableTail\<close>.
\<close>

theorem promote_escalates_depth:
  "(\<exists>r. trace (snd (promote env p tailTx s)) =
          trace s @ CallGetTransactionsToApprove (depth p) (Some tailTx) # r) \<and>
   (\<forall>d s err s1.
      call (CallGetTransactionsToApprove d (Some tailTx)) (GetTransactionsToApprove env d (Some tailTx)) s = (Inl err, s1) \<longrightarrow>
      Error err = referenceTooOldMsg \<longrightarrow>
      promote_loop env p tailTx d s =
        (if d + 1 > maxDepth then (Return (Inl ErrUnpromotableTail), s1)
         else promote_loop env p tailTx (d + 1) s1)) \<and>
   (\<forall>d s err s1.
      call (CallGetTransactionsToApprove d (Some tailTx)) (GetTransactionsToApprove env d (Some tailTx)) s = (Inl err, s1) \<longrightarrow>
      Error err \<noteq> referenceTooOldMsg \<longrightarrow>
      promote_loop env p tailTx d s = (Return (Inl err), s1)) \<and>
   (always_too_old env tailTx \<longrightarrow> depth p \<le> maxDepth \<longrightarrow>
      fst (promote env p tailTx s) = Return (Inl ErrUnpromotableTail) \<and>
      trace (snd (promote env p tailTx s)) =
        trace s @ map (\<lambda>k. CallGetTransactionsToApprove (of_nat k) (Some tailTx)) [unat (depth p) ..< 16])"
proof (intro conjI allI impI)
  from promote_loop_trace [of env p tailTx "depth p" s]
  show "\<exists>r. trace (snd (promote env p tailTx s)) =
          trace s @ CallGetTransactionsToApprove (depth p) (Some tailTx) # r"
    unfolding promote_def by blast
next
  fix d s err s1
  assume "call (CallGetTransactionsToApprove d (Some tailTx)) (GetTransactionsToApprove env d (Some tailTx)) s = (Inl err, s1)"
    "Error err = referenceTooOldMsg"
  then show "promote_loop env p tailTx d s =
        (if d + 1 > maxDepth then (Return (Inl ErrUnpromotableTail), s1)
         else promote_loop env p tailTx (d + 1) s1)"
    by (rule promote_loop_too_old)
next
  fix d s err s1
  assume "call (CallGetTransactionsToApprove d (Some tailTx)) (GetTransactionsToApprove env d (Some tailTx)) s = (Inl err, s1)"
    "Error err \<noteq> referenceTooOldMsg"
  then show "promote_loop env p tailTx d s = (Return (Inl err), s1)"
    by (rule promote_loop_other_error)
next
  assume a: "always_too_old env tailTx" "depth p \<le> maxDepth"
  show "fst (promote env p tailTx s) = Return (Inl ErrUnpromotableTail)"
    unfolding promote_def by (subst promote_loop_always_too_old [OF a]) simp
  show "trace (snd (promote env p tailTx s)) =
        trace s @ map (\<lambda>k. CallGetTransactionsToApprove (of_nat k) (Some tailTx)) [unat (depth p) ..< 16]"
    unfolding promote_def by (subst promote_loop_always_too_old [OF a]) simp
qed

lemma upt_3_16: "[3 ..< 16] = [3, 4, 5, 6, 7, 8, 9, 10, 11, 12, 13, 14, 15::nat]"
  by (simp add: upt_rec)

theorem promote_escalates_depth_witness:
  "always_too_old too_old_env ''TAILA'' \<and> depth example_promoter \<le> maxDepth \<and>
   fst (promote too_old_env example_promoter ''TAILA'' example_state) = Return (Inl ErrUnpromotableTail) \<and>
   trace (snd (promote too_old_env example_promoter ''TAILA'' example_state)) =
     map (\<lambda>d. CallGetTransactionsToApprove d (Some ''TAILA'')) [3, 4, 5, 6, 7, 8, 9, 10, 11, 12, 13, 14, 15]"
proof -
  have a: "always_too_old too_old_env ''TAILA''"
    by (simp add: always_too_old_def too_old_env_def example_env_def referenceTooOldMsg_def)
  have b: "depth example_promoter \<le> maxDepth"
    by (simp add: example_promoter_def maxDepth_def)
  have u: "unat (depth example_promoter) = 3" by (simp add: example_promoter_def)
  from promote_escalates_depth [of too_old_env example_promoter "''TAILA''" example_state] a b
  have "fst (promote too_old_env example_promoter ''TAILA'' example_state) = Return (Inl ErrUnpromotableTail) \<and>
      trace (snd (promote too_old_env example_promoter ''TAILA'' example_state)) =
        trace example_state @ map (\<lambda>k. CallGetTransactionsToApprove (of_nat k) (Some ''TAILA'')) [unat (depth example_promoter) ..< 16]"
    by blast
  then show ?thesis using a b by (simp add: u upt_3_16 example_state_def)
qed

subsection \<open>The selection of the tail to promote\<close>

lemma node_call_not_store: "node_call a \<Longrightarrow> \<not> store_call a"
  by (cases a) simp_all

lemma list_all_node_not_store: "list_all node_call r \<Longrightarrow> list_all (\<lambda>a. \<not> store_call a) r"
  by (induction r) (simp_all add: node_call_not_store)

lemma Minutes_less_Sub:
  "Minutes_less (Sub now ts) approxAboveMaxDepthMinutes \<longleftrightarrow> now - ts < 5 * 60 * 1000000000"
  by (auto simp: Minutes_less_def Sub_def approxAboveMaxDepthMinutes_def min_def max_def)

lemma checkTail_result:
  assumes "fst (checkTail env t s) \<noteq> Panic"
  shows "fst (checkTail env t s) = Return (consistent_and_recent env t (world s))"
proof -
  obtain r1 w1 where cc: "CheckConsistency env t (world s) = (r1, w1)"
    by (cases "CheckConsistency env t (world s)")
  obtain r2 w2 where gt: "GetTrytes env t w1 = (r2, w2)"
    by (cases "GetTrytes env t w1")
  obtain r3 w3 where cn: "clock_Now env w2 = (r3, w3)"
    by (cases "clock_Now env w2")
  show ?thesis
    using assms
    by (cases r1; cases r2; cases r3)
       (auto simp: checkTail_def aboveMaxDepth_def call_def consistent_and_recent_def
          Minutes_less_Sub time_Unix_def cc gt cn
          split: sum.splits list.splits bool.splits if_splits)
qed

lemma checkTail_trace:
  "\<exists>r. trace (snd (checkTail env t s)) = trace s @ r \<and> list_all node_call r"
  by (auto simp: checkTail_def aboveMaxDepth_def call_eq split: sum.splits list.splits)

lemma findTailToPromote_trace:
  "\<exists>r. trace (snd (findTailToPromote env tails n s)) = trace s @ r \<and> list_all node_call r"
proof (induction n arbitrary: s)
  case 0
  then show ?case by simp
next
  case (Suc n)
  obtain r1 where r1: "trace (snd (checkTail env (tails ! n) s)) = trace s @ r1" "list_all node_call r1"
    using checkTail_trace by blast
  obtain res s1 where c: "checkTail env (tails ! n) s = (res, s1)" by (cases "checkTail env (tails ! n) s")
  from Suc [of s1] obtain r2 where r2: "trace (snd (findTailToPromote env tails n s1)) = trace s1 @ r2"
    "list_all node_call r2" by blast
  from r1 c have t1: "trace s1 = trace s @ r1" by simp
  show ?case
    using c t1 r1 r2 by (cases res) auto
qed

text \<open>The loop over the indices, downwards, is the walk through the reversed list.\<close>

lemma findTailToPromote_take:
  "n \<le> length tails \<Longrightarrow>
   findTailToPromote env tails n s = first_promotable env (rev (take n tails)) s"
proof (induction n arbitrary: s)
  case 0
  then show ?case by simp
next
  case (Suc n)
  then have t: "take (Suc n) tails = take n tails @ [tails ! n]"
    by (simp add: take_Suc_conv_app_nth)
  from Suc.prems have "n \<le> length tails" by simp
  then have ih: "\<And>s. findTailToPromote env tails n s = first_promotable env (rev (take n tails)) s"
    by (rule Suc.IH)
  show ?case
    apply (simp add: t)
    apply (unfold ih)
    apply (rule refl)
    done
qed

subsection \<open>The promotion path\<close>

lemma emit_trace: "trace (emit ev s) = trace s @ [Emit ev]"
  by (simp add: emit_def)

lemma promoteAndEmit_trace:
  "\<exists>r. trace (snd (promoteAndEmit env p key bndl t s)) =
          trace s @ CallGetTransactionsToApprove (depth p) (Some t) # r \<and>
        list_all (\<lambda>a. \<not> store_call a) r"
proof -
  obtain r where r: "trace (snd (promote env p t s)) = trace s @ CallGetTransactionsToApprove (depth p) (Some t) # r"
    "list_all node_call r"
    using promote_loop_trace [of env p t "depth p" s] unfolding promote_def by blast
  obtain res s1 where c: "promote env p t s = (res, s1)" by (cases "promote env p t s")
  with r have t1: "trace s1 = trace s @ CallGetTransactionsToApprove (depth p) (Some t) # r" by simp
  from r(2) have ns: "list_all (\<lambda>a. \<not> store_call a) r" by (rule list_all_node_not_store)
  show ?thesis
    using c t1 ns
    by (auto simp: promoteAndEmit_def emit_trace split: outcome.splits sum.splits list.splits)
qed

text \<open>
  Claim C7. For every pending transfer the tick walks the tails from the last element
  to the first and chooses the first tail that passes the consistency check and whose
  transaction is less than five minutes older than the clock's time (tails for which a
  call fails are passed over). When a tail is chosen, no call of the store is made for the
  transfer, so nothing is appended to its tails; and when the stored bundle can be
  rebuilt, the transfer is promoted: the rest of the step is the promotion of the chosen
  tail, whose first call is tip selection at the configured depth with that tail as the
  reference. A chosen tail is a hash, never the empty string.
\<close>

theorem promoter_selects_newest_promotable_tail:
  "findTailToPromote env tails (length tails) s = first_promotable env (rev tails) s \<and>
   (\<forall>t s. fst (checkTail env t s) \<noteq> Panic \<longrightarrow>
          fst (checkTail env t s) = Return (consistent_and_recent env t (world s))) \<and>
   (\<forall>key pt t s s1 bndl.
      findTailToPromote env (Tails pt) (length (Tails pt)) s = (Return t, s1) \<longrightarrow>
      t \<noteq> [] \<longrightarrow>
      PendingTransferToBundle env pt = Inr bndl \<longrightarrow>
      promoteTransfer env p (key, pt) s = promoteAndEmit env p key bndl t s1 \<and>
      (\<exists>r. trace s1 = trace s @ r \<and> list_all node_call r) \<and>
      (\<exists>r. trace (snd (promoteTransfer env p (key, pt) s)) =
             trace s1 @ CallGetTransactionsToApprove (depth p) (Some t) # r \<and>
           list_all (\<lambda>a. \<not> store_call a) r)) \<and>
   (\<forall>key pt t s s1.
      findTailToPromote env (Tails pt) (length (Tails pt)) s = (Return t, s1) \<longrightarrow>
      t \<noteq> [] \<longrightarrow>
      (\<exists>r. trace (snd (promoteTransfer env p (key, pt) s)) = trace s @ r \<and>
           list_all (\<lambda>a. \<not> store_call a) r))"
proof (intro conjI allI impI)
  show "findTailToPromote env tails (length tails) s = first_promotable env (rev tails) s"
    using findTailToPromote_take [of "length tails" tails env s] by simp
next
  fix t s
  assume "fst (checkTail env t s) \<noteq> Panic"
  then show "fst (checkTail env t s) = Return (consistent_and_recent env t (world s))"
    by (rule checkTail_result)
next
  fix key pt t s s1 bndl
  assume f: "findTailToPromote env (Tails pt) (length (Tails pt)) s = (Return t, s1)"
    and t: "t \<noteq> []" and b: "PendingTransferToBundle env pt = Inr bndl"
  show eq: "promoteTransfer env p (key, pt) s = promoteAndEmit env p key bndl t s1"
    using f t b by (simp add: promoteTransfer_def)
  from findTailToPromote_trace [of env "Tails pt" "length (Tails pt)" s] f
  show "\<exists>r. trace s1 = trace s @ r \<and> list_all node_call r" by simp
  show "\<exists>r. trace (snd (promoteTransfer env p (key, pt) s)) =
             trace s1 @ CallGetTransactionsToApprove (depth p) (Some t) # r \<and>
           list_all (\<lambda>a. \<not> store_call a) r"
    unfolding eq by (rule promoteAndEmit_trace)
next
  fix key and pt :: PendingTransfer and t s s1
  assume f: "findTailToPromote env (Tails pt) (length (Tails pt)) s = (Return t, s1)"
    and t: "t \<noteq> []"
  from findTailToPromote_trace [of env "Tails pt" "length (Tails pt)" s] f
  obtain r1 where r1: "trace s1 = trace s @ r1" "list_all node_call r1" by auto
  from r1(2) have n1: "list_all (\<lambda>a. \<not> store_call a) r1" by (rule list_all_node_not_store)
  show "\<exists>r. trace (snd (promoteTransfer env p (key, pt) s)) = trace s @ r \<and>
           list_all (\<lambda>a. \<not> store_call a) r"
  proof (cases "PendingTransferToBundle env pt")
    case (Inl err)
    with f t r1 n1 show ?thesis by (simp add: promoteTransfer_def)
  next
    case (Inr bndl)
    with f t have eq: "promoteTransfer env p (key, pt) s = promoteAndEmit env p key bndl t s1"
      by (simp add: promoteTransfer_def)
    from promoteAndEmit_trace [of env p key bndl t s1]
    obtain r where "trace (snd (promoteAndEmit env p key bndl t s1)) =
          trace s1 @ CallGetTransactionsToApprove (depth p) (Some t) # r"
        "list_all (\<lambda>a. \<not> store_call a) r" by blast
    with r1 n1 show ?thesis unfolding eq by simp
  qed
qed

lemma example_selection:
  "findTailToPromote consistent_env [''TAILA'', ''TAILB'', ''TAILC''] (length [''TAILA'', ''TAILB'', ''TAILC'']) example_state
   = (Return ''TAILB'',
      \<lparr>world = (), trace = [CallCheckConsistency ''TAILC'', CallCheckConsistency ''TAILB'',
                            CallGetTrytes ''TAILB'', CallNow]\<rparr>)"
  by (simp add: checkTail_def aboveMaxDepth_def call_def consistent_env_def example_env_def
        example_state_def example_tx_def time_Unix_def Sub_def Minutes_less_def approxAboveMaxDepthMinutes_def)

lemma example_promotion:
  "promoteAndEmit consistent_env example_promoter key (map example_tx [''TX'']) t \<lparr>world = (), trace = tr\<rparr>
   = (Return (),
      \<lparr>world = (),
       trace = tr @ [CallGetTransactionsToApprove 3 (Some t),
                     CallPrepareTransfers [EmptyTransfer] \<lparr>Inputs = [], RemainderAddress = None, Timestamp = None\<rparr>,
                     CallAttachToTangle ''TRUNK'' ''BRANCH'' 14 [''PROMOTION''],
                     CallStoreAndBroadcast [''PROMOTION''],
                     Emit (EventPromotion \<lparr>OriginTailTxHash = key, BundleHash = ''BUNDLE'',
                             PromotionTailTxHash = ''HASHOFPROMOTION'', ReattachmentTailTxHash = []\<rparr>)]\<rparr>)"
  apply (simp add: promoteAndEmit_def promote_def)
  apply (subst promote_loop.simps)
  apply (simp add: call_def send_def emit_def consistent_env_def example_env_def example_promoter_def example_tx_def)
  done

theorem promoter_selects_newest_promotable_tail_witness:
  "findTailToPromote consistent_env [''TAILA'', ''TAILB'', ''TAILC''] (length [''TAILA'', ''TAILB'', ''TAILC'']) example_state
     = (Return ''TAILB'',
        \<lparr>world = (), trace = [CallCheckConsistency ''TAILC'', CallCheckConsistency ''TAILB'',
                              CallGetTrytes ''TAILB'', CallNow]\<rparr>) \<and>
   ''TAILB'' \<noteq> [] \<and>
   PendingTransferToBundle consistent_env \<lparr>Bundle = [''TX''], Tails = [''TAILA'', ''TAILB'', ''TAILC'']\<rparr>
     = Inr (map example_tx [''TX'']) \<and>
   promoteTransfer consistent_env example_promoter
      (''TAILA'', \<lparr>Bundle = [''TX''], Tails = [''TAILA'', ''TAILB'', ''TAILC'']\<rparr>) example_state
     = (Return (),
        \<lparr>world = (),
         trace = [CallCheckConsistency ''TAILC'', CallCheckConsistency ''TAILB'',
                  CallGetTrytes ''TAILB'', CallNow,
                  CallGetTransactionsToApprove 3 (Some ''TAILB''),
                  CallPrepareTransfers [EmptyTransfer] \<lparr>Inputs = [], RemainderAddress = None, Timestamp = None\<rparr>,
                  CallAttachToTangle ''TRUNK'' ''BRANCH'' 14 [''PROMOTION''],
                  CallStoreAndBroadcast [''PROMOTION''],
                  Emit (EventPromotion \<lparr>OriginTailTxHash = ''TAILA'', BundleHash = ''BUNDLE'',
                          PromotionTailTxHash = ''HASHOFPROMOTION'', ReattachmentTailTxHash = []\<rparr>)]\<rparr>)"
proof -
  let ?pt = "\<lparr>Bundle = [''TX''], Tails = [''TAILA'', ''TAILB'', ''TAILC'']\<rparr>"
  let ?s1 = "\<lparr>world = (), trace = [CallCheckConsistency ''TAILC'', CallCheckConsistency ''TAILB'',
                              CallGetTrytes ''TAILB'', CallNow]\<rparr>"
  have f: "findTailToPromote consistent_env (Tails ?pt) (length (Tails ?pt)) example_state = (Return ''TAILB'', ?s1)"
    using example_selection by simp
  have t: "''TAILB'' \<noteq> []" by simp
  have b: "PendingTransferToBundle consistent_env ?pt = Inr (map example_tx [''TX''])"
    by (simp add: consistent_env_def example_env_def)
  from promoter_selects_newest_promotable_tail [of consistent_env "[]" example_state example_promoter] f t b
  have "promoteTransfer consistent_env example_promoter (''TAILA'', ?pt) example_state
      = promoteAndEmit consistent_env example_promoter ''TAILA'' (map example_tx [''TX'']) ''TAILB'' ?s1"
    by blast
  then show ?thesis
    unfolding example_promotion using example_selection b by simp
qed

subsection \<open>The reattachment path\<close>

lemma storeTailTxHash_not_found:
  assumes "store_AddTailHash env (accID p) key h (world s) = (Some ErrPendingTransferNotFound, w)"
  shows "storeTailTxHash env p key h msg s =
           (True, \<lparr>world = w, trace = trace s @ [CallAddTailHash (accID p) key h]\<rparr>)"
  using assms by (simp add: storeTailTxHash_def call_def)

lemma storeTailTxHash_other_error:
  assumes "store_AddTailHash env (accID p) key h (world s) = (Some err, w)"
    and "err \<noteq> ErrPendingTransferNotFound"
  shows "storeTailTxHash env p key h msg s =
           (False, \<lparr>world = w, trace = trace s @ [CallAddTailHash (accID p) key h, Emit (EventError (Wrap err msg))]\<rparr>)"
  using assms by (simp add: storeTailTxHash_def call_def emit_def)

text \<open>
  Claim C3, as the code has it. When the bundle was reattached and \<open>AddTailHash\<close>
  answers \<open>ErrPendingTransferNotFound\<close>, no error event is emitted for the store, and
  the step goes on as after a successful store: it promotes the reattached tail, starting
  with tip selection at the configured depth with the new tail as reference. Apart from
  \<open>AddTailHash\<close> itself no call of the store is made.
\<close>

theorem not_found_after_reattach_still_promotes:
  assumes "reattach env p (b # bs) s = (Return (Inr h), s1)"
    and "store_AddTailHash env (accID p) key h (world s1) = (Some ErrPendingTransferNotFound, w)"
  shows "reattachAndPromote env p key (b # bs) s =
           promoteAndEmit env p key (b # bs) h
             \<lparr>world = w,
              trace = trace s1 @
                [Emit (EventReattachment
                   \<lparr>OriginTailTxHash = key, BundleHash = tx_Bundle b,
                    PromotionTailTxHash = [], ReattachmentTailTxHash = h\<rparr>),
                 CallAddTailHash (accID p) key h]\<rparr> \<and>
         (\<exists>r. trace (snd (reattachAndPromote env p key (b # bs) s)) =
                trace s1 @
                [Emit (EventReattachment
                   \<lparr>OriginTailTxHash = key, BundleHash = tx_Bundle b,
                    PromotionTailTxHash = [], ReattachmentTailTxHash = h\<rparr>),
                 CallAddTailHash (accID p) key h,
                 CallGetTransactionsToApprove (depth p) (Some h)] @ r \<and>
              list_all (\<lambda>a. \<not> store_call a) r)"
proof -
  let ?s2 = "emit (EventReattachment
                   \<lparr>OriginTailTxHash = key, BundleHash = tx_Bundle b,
                    PromotionTailTxHash = [], ReattachmentTailTxHash = h\<rparr>) s1"
  let ?s3 = "\<lparr>world = w,
              trace = trace s1 @
                [Emit (EventReattachment
                   \<lparr>OriginTailTxHash = key, BundleHash = tx_Bundle b,
                    PromotionTailTxHash = [], ReattachmentTailTxHash = h\<rparr>),
                 CallAddTailHash (accID p) key h]\<rparr>"
  have "store_AddTailHash env (accID p) key h (world ?s2) = (Some ErrPendingTransferNotFound, w)"
    using assms(2) by (simp add: emit_def)
  then have st: "storeTailTxHash env p key h ''unable to store reattachment tx tail hash'' ?s2 = (True, ?s3)"
    by (simp add: storeTailTxHash_not_found emit_def)
  have eq: "reattachAndPromote env p key (b # bs) s = promoteAndEmit env p key (b # bs) h ?s3"
    using assms(1) st by (simp add: reattachAndPromote_def)
  from promoteAndEmit_trace [of env p key "b # bs" h ?s3]
  obtain r where "trace (snd (promoteAndEmit env p key (b # bs) h ?s3)) =
          trace ?s3 @ CallGetTransactionsToApprove (depth p) (Some h) # r"
        "list_all (\<lambda>a. \<not> store_call a) r" by blast
  then show ?thesis unfolding eq by simp
qed

lemma example_reattach:
  "reattach example_env example_promoter [example_tx ''TX''] \<lparr>world = (), trace = tr\<rparr>
   = (Return (Inr ''HASHOFHASHOFTX''),
      \<lparr>world = (),
       trace = tr @ [CallGetTransactionsToApprove 3 None,
                     CallAttachToTangle ''TRUNK'' ''BRANCH'' 14 [''HASHOFTX''],
                     CallStoreAndBroadcast [''HASHOFTX'']]\<rparr>)"
  by (simp add: reattach_def call_def send_def example_env_def example_promoter_def example_tx_def)

lemma example_promotion_after_reattach:
  "promoteAndEmit example_env example_promoter key [example_tx ''TX''] t \<lparr>world = (), trace = tr\<rparr>
   = (Return (),
      \<lparr>world = (),
       trace = tr @ [CallGetTransactionsToApprove 3 (Some t),
                     CallPrepareTransfers [EmptyTransfer] \<lparr>Inputs = [], RemainderAddress = None, Timestamp = None\<rparr>,
                     CallAttachToTangle ''TRUNK'' ''BRANCH'' 14 [''PROMOTION''],
                     CallStoreAndBroadcast [''PROMOTION''],
                     Emit (EventPromotion \<lparr>OriginTailTxHash = key, BundleHash = ''BUNDLE'',
                             PromotionTailTxHash = ''HASHOFPROMOTION'', ReattachmentTailTxHash = []\<rparr>)]\<rparr>)"
  apply (simp add: promoteAndEmit_def promote_def)
  apply (subst promote_loop.simps)
  apply (simp add: call_def send_def emit_def example_env_def example_promoter_def example_tx_def)
  done

lemma example_no_tail:
  "findTailToPromote example_env [''TAILA''] (length [''TAILA'']) example_state
   = (Return [], \<lparr>world = (), trace = [CallCheckConsistency ''TAILA'']\<rparr>)"
  by (simp add: checkTail_def call_def example_env_def example_state_def)

text \<open>
  Claim C3 as stated does not hold: in the concrete environment the store answers
  \<open>ErrPendingTransferNotFound\<close>, and the call of \<open>AddTailHash\<close> is followed, for the
  same transfer and in the same tick, by a promotion of the reattached tail and a
  \<open>Promotion\<close> event.
\<close>

theorem promotion_follows_not_found:
  "store_AddTailHash example_env ''ACC'' ''TAILA'' ''HASHOFHASHOFTX'' () = (Some ErrPendingTransferNotFound, ()) \<and>
   promoteTransfer example_env example_promoter
      (''TAILA'', \<lparr>Bundle = [''TX''], Tails = [''TAILA'']\<rparr>) example_state
     = (Return (),
        \<lparr>world = (),
         trace = [CallCheckConsistency ''TAILA'',
                  CallGetTransactionsToApprove 3 None,
                  CallAttachToTangle ''TRUNK'' ''BRANCH'' 14 [''HASHOFTX''],
                  CallStoreAndBroadcast [''HASHOFTX''],
                  Emit (EventReattachment \<lparr>OriginTailTxHash = ''TAILA'', BundleHash = ''BUNDLE'',
                          PromotionTailTxHash = [], ReattachmentTailTxHash = ''HASHOFHASHOFTX''\<rparr>),
                  CallAddTailHash ''ACC'' ''TAILA'' ''HASHOFHASHOFTX'',
                  CallGetTransactionsToApprove 3 (Some ''HASHOFHASHOFTX''),
                  CallPrepareTransfers [EmptyTransfer] \<lparr>Inputs = [], RemainderAddress = None, Timestamp = None\<rparr>,
                  CallAttachToTangle ''TRUNK'' ''BRANCH'' 14 [''PROMOTION''],
                  CallStoreAndBroadcast [''PROMOTION''],
                  Emit (EventPromotion \<lparr>OriginTailTxHash = ''TAILA'', BundleHash = ''BUNDLE'',
                          PromotionTailTxHash = ''HASHOFPROMOTION'', ReattachmentTailTxHash = []\<rparr>)]\<rparr>)"
proof -
  have a: "store_AddTailHash example_env ''ACC'' ''TAILA'' ''HASHOFHASHOFTX'' () = (Some ErrPendingTransferNotFound, ())"
    by (simp add: example_env_def)
  have b: "PendingTransferToBundle example_env \<lparr>Bundle = [''TX''], Tails = [''TAILA'']\<rparr> = Inr [example_tx ''TX'']"
    by (simp add: example_env_def)
  have c: "storeTailTxHash example_env example_promoter key h msg \<lparr>world = (), trace = tr\<rparr>
     = (True, \<lparr>world = (), trace = tr @ [CallAddTailHash ''ACC'' key h]\<rparr>)" for key h msg tr
    by (simp add: storeTailTxHash_def call_def example_env_def example_promoter_def)
  have d: "promoteTransfer example_env example_promoter
      (''TAILA'', \<lparr>Bundle = [''TX''], Tails = [''TAILA'']\<rparr>) example_state
     = reattachAndPromote example_env example_promoter ''TAILA'' [example_tx ''TX'']
         \<lparr>world = (), trace = [CallCheckConsistency ''TAILA'']\<rparr>"
    using example_no_tail b by (simp add: promoteTransfer_def)
  show ?thesis
    unfolding d using a
    by (simp add: reattachAndPromote_def example_reattach emit_def c example_promotion_after_reattach)
       (simp add: example_tx_def)?
qed

theorem not_found_after_reattach_still_promotes_witness:
  "reattach example_env example_promoter [example_tx ''TX''] \<lparr>world = (), trace = []\<rparr>
     = (Return (Inr ''HASHOFHASHOFTX''),
        \<lparr>world = (),
         trace = [CallGetTransactionsToApprove 3 None,
                  CallAttachToTangle ''TRUNK'' ''BRANCH'' 14 [''HASHOFTX''],
                  CallStoreAndBroadcast [''HASHOFTX'']]\<rparr>) \<and>
   store_AddTailHash example_env (accID example_promoter) ''TAILA'' ''HASHOFHASHOFTX'' () =
     (Some ErrPendingTransferNotFound, ()) \<and>
   (\<exists>r. trace (snd (reattachAndPromote example_env example_promoter ''TAILA'' [example_tx ''TX'']
                     \<lparr>world = (), trace = []\<rparr>)) =
        [CallGetTransactionsToApprove 3 None,
         CallAttachToTangle ''TRUNK'' ''BRANCH'' 14 [''HASHOFTX''],
         CallStoreAndBroadcast [''HASHOFTX''],
         Emit (EventReattachment \<lparr>OriginTailTxHash = ''TAILA'', BundleHash = ''BUNDLE'',
                 PromotionTailTxHash = [], ReattachmentTailTxHash = ''HASHOFHASHOFTX''\<rparr>),
         CallAddTailHash ''ACC'' ''TAILA'' ''HASHOFHASHOFTX'',
         CallGetTransactionsToApprove 3 (Some ''HASHOFHASHOFTX'')] @ r)"
proof -
  let ?s1 = "\<lparr>world = (), trace = [CallGetTransactionsToApprove 3 None,
                  CallAttachToTangle ''TRUNK'' ''BRANCH'' 14 [''HASHOFTX''],
                  CallStoreAndBroadcast [''HASHOFTX'']]\<rparr>"
  have a: "reattach example_env example_promoter [example_tx ''TX''] \<lparr>world = (), trace = []\<rparr>
     = (Return (Inr ''HASHOFHASHOFTX''), ?s1)"
    using example_reattach [of "[]"] by simp
  have b: "store_AddTailHash example_env (accID example_promoter) ''TAILA'' ''HASHOFHASHOFTX'' (world ?s1) =
     (Some ErrPendingTransferNotFound, ())"
    by (simp add: example_env_def)
  from not_found_after_reattach_still_promotes [OF a b]
  obtain r where "trace (snd (reattachAndPromote example_env example_promoter ''TAILA'' [example_tx ''TX'']
                     \<lparr>world = (), trace = []\<rparr>)) =
        trace ?s1 @
                [Emit (EventReattachment
                   \<lparr>OriginTailTxHash = ''TAILA'', BundleHash = tx_Bundle (example_tx ''TX''),
                    PromotionTailTxHash = [], ReattachmentTailTxHash = ''HASHOFHASHOFTX''\<rparr>),
                 CallAddTailHash (accID example_promoter) ''TAILA'' ''HASHOFHASHOFTX'',
                 CallGetTransactionsToApprove (depth example_promoter) (Some ''HASHOFHASHOFTX'')] @ r"
    by blast
  then show ?thesis using a b by (simp add: example_tx_def example_promoter_def)
qed

section \<open>Properties of input selection\<close>

lemma partitionRequests_panics:
  "(k, r) \<in> set reqs \<Longrightarrow> TimeoutAt (Req r) = None \<Longrightarrow> ExpectedAmount (Req r) = None \<Longrightarrow>
   partitionRequests env seed now reqs parts = Panic"
proof (induction reqs arbitrary: parts)
  case Nil
  then show ?case by simp
next
  case (Cons x reqs)
  obtain k' r' where x: "x = (k', r')" by (cases x)
  show ?case
  proof (cases "x = (k, r)")
    case True
    with Cons.prems x show ?thesis by simp
  next
    case False
    with Cons.prems have "(k, r) \<in> set reqs" by simp
    then have ih: "\<And>parts. partitionRequests env seed now reqs parts = Panic"
      using Cons.IH Cons.prems by blast
    show ?thesis
      unfolding x by (simp add: ih Let_def split: option.splits)
  qed
qed

text \<open>
  Claim C10. When the store holds a deposit request without timeout and without expected
  amount, input selection panics; it does not return an error. The store has handed over
  its requests, and the node, the clock and the seed provider answer without error, so
  that the loop over the requests is reached. Put the other way round: input selection
  can only be free of panics when every request without timeout carries an expected
  amount.
\<close>

theorem malformed_remainder_panics:
  assumes "store_GetDepositRequests env (acc_id acc) (world s) = (Inr reqs, w)"
    and "(k, r) \<in> set reqs" and "TimeoutAt (Req r) = None" and "ExpectedAmount (Req r) = None"
    and "\<forall>w. \<exists>h. fst (GetLatestSolidSubtangleMilestone env w) = Inr h"
    and "\<forall>w. \<exists>t. fst (TimeSource_Time env w) = Inr t"
    and "\<forall>w. \<exists>sd. fst (SeedProv_Seed env w) = Inr sd"
  shows "fst (defaultInputSelection env acc transferValue balanceCheck s) = Panic"
proof -
  from assms(2) have ne: "length reqs \<noteq> 0" by auto
  obtain h where h: "fst (GetLatestSolidSubtangleMilestone env w) = Inr h" using assms(5) by blast
  let ?w2 = "snd (GetLatestSolidSubtangleMilestone env w)"
  obtain t where t: "fst (TimeSource_Time env ?w2) = Inr t" using assms(6) by blast
  let ?w3 = "snd (TimeSource_Time env ?w2)"
  obtain sd where sd: "fst (SeedProv_Seed env ?w3) = Inr sd" using assms(7) by blast
  have p: "\<And>parts. partitionRequests env sd t reqs parts = Panic"
    using assms(2-4) by (rule partitionRequests_panics)
  show ?thesis
    using ne by (simp add: defaultInputSelection_def call_eq assms(1) h t sd p)
qed

lemma balance_check_no_inputs:
  "defaultInputSelection env acc transferValue True s = (Return (sm, ins, rem, err), s') \<Longrightarrow>
   ins = [] \<and> rem = []"
  by (auto simp: defaultInputSelection_def call_eq split: sum.splits outcome.splits prod.splits if_splits)

lemma no_requests:
  assumes "store_GetDepositRequests env (acc_id acc) (world s) = (Inr [], w)"
  shows "fst (defaultInputSelection env acc transferValue True s) = Return (0, [], [], None)"
    and "fst (defaultInputSelection env acc transferValue False s) = Return (0, [], [], Some ErrInsufficientBalance)"
  using assms by (simp_all add: defaultInputSelection_def call_eq)


theorem malformed_remainder_panics_witness:
  "store_GetDepositRequests malformed_env (acc_id example_account) (world example_state)
     = (Inr [(1, open_request), (2, malformed_request)], ()) \<and>
   (2, malformed_request) \<in> set [(1, open_request), (2::u64, malformed_request)] \<and>
   TimeoutAt (Req malformed_request) = None \<and> ExpectedAmount (Req malformed_request) = None \<and>
   (\<forall>w. \<exists>h. fst (GetLatestSolidSubtangleMilestone malformed_env w) = Inr h) \<and>
   (\<forall>w. \<exists>t. fst (TimeSource_Time malformed_env w) = Inr t) \<and>
   (\<forall>w. \<exists>sd. fst (SeedProv_Seed malformed_env w) = Inr sd) \<and>
   fst (defaultInputSelection malformed_env example_account 10 False example_state) = Panic"
proof -
  have a: "store_GetDepositRequests malformed_env (acc_id example_account) (world example_state)
     = (Inr [(1, open_request), (2, malformed_request)], ())"
    by (simp add: malformed_env_def example_env_def)
  have b: "(2, malformed_request) \<in> set [(1, open_request), (2::u64, malformed_request)]" by simp
  have c: "TimeoutAt (Req malformed_request) = None" "ExpectedAmount (Req malformed_request) = None"
    by (simp_all add: malformed_request_def)
  have d: "\<forall>w. \<exists>h. fst (GetLatestSolidSubtangleMilestone malformed_env w) = Inr h"
    by (simp add: malformed_env_def example_env_def)
  have e: "\<forall>w. \<exists>t. fst (TimeSource_Time malformed_env w) = Inr t"
    by (simp add: malformed_env_def example_env_def)
  have f: "\<forall>w. \<exists>sd. fst (SeedProv_Seed malformed_env w) = Inr sd"
    by (simp add: malformed_env_def example_env_def)
  from malformed_remainder_panics [OF a b c d e f]
  have "fst (defaultInputSelection malformed_env example_account 10 False example_state) = Panic" .
  with a b c d e f show ?thesis by blast
qed

text \<open>
  Claim C4. With \<open>balanceCheck\<close> set, whatever the store, the node, the clock and the
  seed provider answer, every tuple that input selection returns has no inputs and no
  indices to remove. When the store holds no deposit request for the account, the result
  is \<open>(0, [], [], nil)\<close> with \<open>balanceCheck\<close> and the error
  \<open>ErrInsufficientBalance\<close> without it.
\<close>

theorem balance_check_selects_nothing:
  "(\<forall>sm ins rem err s'.
      defaultInputSelection env acc transferValue True s = (Return (sm, ins, rem, err), s') \<longrightarrow>
      ins = [] \<and> rem = []) \<and>
   (\<forall>w. store_GetDepositRequests env (acc_id acc) (world s) = (Inr [], w) \<longrightarrow>
      fst (defaultInputSelection env acc transferValue True s) = Return (0, [], [], None) \<and>
      fst (defaultInputSelection env acc transferValue False s) =
        Return (0, [], [], Some ErrInsufficientBalance))"
  using balance_check_no_inputs [of env acc transferValue s] no_requests [of env acc s]
  by blast

lemma funded_balance_check:
  "defaultInputSelection funded_env example_account 50 True example_state
   = (Return (100, [], [], None),
      \<lparr>world = (), trace = [CallGetDepositRequests ''ACC'', CallGetLatestSolidSubtangleMilestone,
                            CallTime, CallSeed, CallGetBalances [''ADDRESS1''] 100 ''MILESTONE'']\<rparr>)"
  by (simp add: defaultInputSelection_def call_def funded_env_def example_env_def example_account_def
        example_state_def open_request_def add_primary_def markForRemoval_def addAsInput_def
        FormatUint_def decimal.simps digit_char_def Let_def)

lemma funded_selection:
  "defaultInputSelection funded_env example_account 50 False example_state
   = (Return (100, [\<lparr>in_Address = ''ADDRESS1'', in_KeyIndex = 1, in_Balance = 100, in_Security = 2\<rparr>], [1], None),
      \<lparr>world = (), trace = [CallGetDepositRequests ''ACC'', CallGetLatestSolidSubtangleMilestone,
                            CallTime, CallSeed, CallGetBalances [''ADDRESS1''] 100 ''MILESTONE'']\<rparr>)"
  by (simp add: defaultInputSelection_def call_def funded_env_def example_env_def example_account_def
        example_state_def open_request_def add_primary_def markForRemoval_def addAsInput_def
        FormatUint_def decimal.simps digit_char_def Let_def)

theorem balance_check_selects_nothing_witness:
  "defaultInputSelection funded_env example_account 50 True example_state
     = (Return (100, [], [], None),
        \<lparr>world = (), trace = [CallGetDepositRequests ''ACC'', CallGetLatestSolidSubtangleMilestone,
                              CallTime, CallSeed, CallGetBalances [''ADDRESS1''] 100 ''MILESTONE'']\<rparr>) \<and>
   store_GetDepositRequests example_env (acc_id example_account) (world example_state) = (Inr [], ()) \<and>
   fst (defaultInputSelection example_env example_account 50 True example_state) = Return (0, [], [], None) \<and>
   fst (defaultInputSelection example_env example_account 50 False example_state) =
     Return (0, [], [], Some ErrInsufficientBalance)"
proof -
  have a: "store_GetDepositRequests example_env (acc_id example_account) (world example_state) = (Inr [], ())"
    by (simp add: example_env_def)
  from balance_check_selects_nothing [of example_env example_account 50 example_state] a
  have "fst (defaultInputSelection example_env example_account 50 True example_state) = Return (0, [], [], None) \<and>
      fst (defaultInputSelection example_env example_account 50 False example_state) =
        Return (0, [], [], Some ErrInsufficientBalance)"
    by blast
  with a funded_balance_check show ?thesis by blast
qed

section \<open>Properties of the send pipeline\<close>

lemma prepareAndCommit_ends_with_commit:
  assumes "prepareAndCommit env setts strat acc seed t targets s = (Return (Inr powedTrytes), ra, acc1, s')"
  shows "\<exists>tr h rem. trace s' = tr @ [CallAddPendingTransfer (acc_id acc1) h powedTrytes rem]"
  using assms
  unfolding prepareAndCommit_def Let_def
  by (auto simp: call_eq split: if_splits prod.splits outcome.splits sum.splits option.splits list.splits)

text \<open>The deferred cleanup does nothing once the commit has succeeded, and otherwise removes
  the remainder request it finds.\<close>

lemma cleanup_after_commit: "cleanup env acc seed remainderAddress True s = (Return (), s)"
  by (simp add: cleanup_def split: option.splits)

lemma cleanup_after_failed_commit:
  assumes "store_GetDepositRequests env (acc_id acc) (world s) = (Inr reqs, w1)"
    and "81 \<le> length remainderAddr"
    and "findRemainderKeyIndex env seed (take 81 remainderAddr) reqs = Some k"
  shows "\<exists>r. trace (snd (cleanup env acc seed (Some remainderAddr) False s)) =
               trace s @ [CallGetDepositRequests (acc_id acc), CallRemoveDepositRequest (acc_id acc) k] @ r"
  using assms by (auto simp: cleanup_def call_def emit_def split: prod.splits option.splits)

text \<open>
  Claim C5. \<open>Send\<close> passes its checks, the seed and the time are read, and every step
  up to the commit \<open>AddPendingTransfer\<close> succeeds; then \<open>StoreAndBroadcast\<close> fails.
  \<open>Send\<close> returns the wrapped error of the broadcast. The commit is the last call
  before the broadcast and the broadcast is the last call of all: after the commit the
  store is not called again, so the pending transfer stays in the store and the deferred
  cleanup does not remove the remainder deposit request.
\<close>

theorem broadcast_failure_keeps_commit:
  assumes "running acc" and "targets \<noteq> []"
    and "list_all (\<lambda>target. IsTrytesOfExactLength (tr_Address target) (81 + 9)) targets"
    and "SeedProv_Seed env (world s) = (Inr seed, w1)"
    and "TimeSource_Time env w1 = (Inr t, w2)"
    and "prepareAndCommit env setts strat acc seed t targets
           \<lparr>world = w2, trace = trace s @ [CallSeed, CallTime]\<rparr>
         = (Return (Inr powedTrytes), remainderAddress, acc1, s3)"
    and "StoreAndBroadcast env powedTrytes (world s3) = (Inl err, w4)"
  shows "Send env setts strat acc targets s =
           (Return (Inl (Wrap err ''unable to store/broadcast bundle in send op.'')), acc1,
            \<lparr>world = w4, trace = trace s3 @ [CallStoreAndBroadcast powedTrytes]\<rparr>) \<and>
         (\<exists>tr h rem. trace s3 = tr @ [CallAddPendingTransfer (acc_id acc1) h powedTrytes rem])"
proof
  have b: "broadcast env powedTrytes s3 =
      (Inl (Wrap err ''unable to store/broadcast bundle in send op.''),
       \<lparr>world = w4, trace = trace s3 @ [CallStoreAndBroadcast powedTrytes]\<rparr>)"
    using assms(7) by (simp add: broadcast_def call_def)
  have c: "cleanup env acc1 seed remainderAddress True s' = (Return (), s')" for s'
    by (simp add: cleanup_def split: option.splits)
  show "Send env setts strat acc targets s =
           (Return (Inl (Wrap err ''unable to store/broadcast bundle in send op.'')), acc1,
            \<lparr>world = w4, trace = trace s3 @ [CallStoreAndBroadcast powedTrytes]\<rparr>)"
    using assms(1-3) by (simp add: Send_def account_send_def call_def assms(4,5,6) b c)
  show "\<exists>tr h rem. trace s3 = tr @ [CallAddPendingTransfer (acc_id acc1) h powedTrytes rem]"
    using assms(6) by (rule prepareAndCommit_ends_with_commit)
qed

lemma example_selection_for_send:
  "defaultInputSelection broadcast_fails_env example_account 60 False \<lparr>world = (), trace = tr\<rparr>
   = (Return (100, [\<lparr>in_Address = ''ADDRESS1'', in_KeyIndex = 1, in_Balance = 100, in_Security = 2\<rparr>], [1], None),
      \<lparr>world = (), trace = tr @ [CallGetDepositRequests ''ACC'', CallGetLatestSolidSubtangleMilestone,
                            CallTime, CallSeed, CallGetBalances [''ADDRESS1''] 100 ''MILESTONE'']\<rparr>)"
  by (simp add: defaultInputSelection_def call_def broadcast_fails_env_def funded_env_def example_env_def example_account_def
        open_request_def add_primary_def markForRemoval_def addAsInput_def
        FormatUint_def decimal.simps digit_char_def Let_def)

lemma example_allocation:
  "allocateDepositRequest broadcast_fails_env example_settings example_account
     \<lparr>TimeoutAt = None, MultiUse = False, ExpectedAmount = Some 40\<rparr> \<lparr>world = (), trace = tr\<rparr>
   = (Inr \<lparr>TimeoutAt = None, MultiUse = False, ExpectedAmount = Some 40, Address = ''ADDRESS3''\<rparr>,
      example_account\<lparr>lastKeyIndex := 3\<rparr>,
      \<lparr>world = (),
       trace = tr @ [CallSeed, CallWriteIndex ''ACC'' 3,
                     CallAddDepositRequest ''ACC'' 3
                       \<lparr>SecurityLevel = 2, Req = \<lparr>TimeoutAt = None, MultiUse = False, ExpectedAmount = Some 40\<rparr>\<rparr>]\<rparr>)"
  by (simp add: allocateDepositRequest_def call_def broadcast_fails_env_def funded_env_def example_env_def
        example_account_def example_settings_def FormatUint_def decimal.simps digit_char_def Let_def)

lemma example_commit:
  "prepareAndCommit broadcast_fails_env example_settings (defaultInputSelection broadcast_fails_env)
     example_account ''SEED'' 1120000000000 [example_recipient] \<lparr>world = (), trace = [CallSeed, CallTime]\<rparr>
   = (Return (Inr [''PROMOTION'']), Some ''ADDRESS3'', example_account\<lparr>lastKeyIndex := 3\<rparr>,
      \<lparr>world = (),
       trace = [CallSeed, CallTime,
                CallGetDepositRequests ''ACC'', CallGetLatestSolidSubtangleMilestone,
                CallTime, CallSeed, CallGetBalances [''ADDRESS1''] 100 ''MILESTONE'',
                CallSeed, CallWriteIndex ''ACC'' 3,
                CallAddDepositRequest ''ACC'' 3
                  \<lparr>SecurityLevel = 2, Req = \<lparr>TimeoutAt = None, MultiUse = False, ExpectedAmount = Some 40\<rparr>\<rparr>,
                CallPrepareTransfers [example_recipient]
                  \<lparr>Inputs = [\<lparr>in_Address = ''ADDRESS1'', in_KeyIndex = 1, in_Balance = 100, in_Security = 2\<rparr>],
                   RemainderAddress = Some ''ADDRESS3'', Timestamp = Some 1120\<rparr>,
                CallGetTransactionsToApprove 3 None,
                CallAttachToTangle ''TRUNK'' ''BRANCH'' 14 [''PROMOTION''],
                CallAddPendingTransfer ''ACC'' ''HASHOFPROMOTION'' [''PROMOTION''] [1]]\<rparr>)"
proof -
  have sm: "Sum [example_recipient] = 60" by (simp add: Sum_def example_recipient_def)
  have ts: "unix_seconds 1120000000000 = 1120" by (simp add: unix_seconds_def)
  show ?thesis
    unfolding prepareAndCommit_def sm Let_def
    apply (simp add: example_selection_for_send example_allocation ts)
    apply (simp add: call_def broadcast_fails_env_def funded_env_def example_env_def
        example_account_def example_settings_def example_tx_def)
    done
qed

theorem broadcast_failure_keeps_commit_witness:
  "running example_account \<and> [example_recipient] \<noteq> [] \<and>
   list_all (\<lambda>target. IsTrytesOfExactLength (tr_Address target) (81 + 9)) [example_recipient] \<and>
   Send broadcast_fails_env example_settings (defaultInputSelection broadcast_fails_env)
        example_account [example_recipient] example_state
   = (Return (Inl (Wrap (Opaque ''node unreachable'') ''unable to store/broadcast bundle in send op.'')),
      example_account\<lparr>lastKeyIndex := 3\<rparr>,
      \<lparr>world = (),
       trace = [CallSeed, CallTime,
                CallGetDepositRequests ''ACC'', CallGetLatestSolidSubtangleMilestone,
                CallTime, CallSeed, CallGetBalances [''ADDRESS1''] 100 ''MILESTONE'',
                CallSeed, CallWriteIndex ''ACC'' 3,
                CallAddDepositRequest ''ACC'' 3
                  \<lparr>SecurityLevel = 2, Req = \<lparr>TimeoutAt = None, MultiUse = False, ExpectedAmount = Some 40\<rparr>\<rparr>,
                CallPrepareTransfers [example_recipient]
                  \<lparr>Inputs = [\<lparr>in_Address = ''ADDRESS1'', in_KeyIndex = 1, in_Balance = 100, in_Security = 2\<rparr>],
                   RemainderAddress = Some ''ADDRESS3'', Timestamp = Some 1120\<rparr>,
                CallGetTransactionsToApprove 3 None,
                CallAttachToTangle ''TRUNK'' ''BRANCH'' 14 [''PROMOTION''],
                CallAddPendingTransfer ''ACC'' ''HASHOFPROMOTION'' [''PROMOTION''] [1],
                CallStoreAndBroadcast [''PROMOTION'']]\<rparr>)"
proof -
  have a: "running example_account" by (simp add: example_account_def)
  have b: "[example_recipient] \<noteq> []" by simp
  have c: "list_all (\<lambda>target. IsTrytesOfExactLength (tr_Address target) (81 + 9)) [example_recipient]"
    by (simp add: IsTrytesOfExactLength_def example_recipient_def)
  have d: "SeedProv_Seed broadcast_fails_env (world example_state) = (Inr ''SEED'', ())"
    by (simp add: broadcast_fails_env_def funded_env_def example_env_def)
  have e: "TimeSource_Time broadcast_fails_env () = (Inr 1120000000000, ())"
    by (simp add: broadcast_fails_env_def funded_env_def example_env_def)
  have f: "prepareAndCommit broadcast_fails_env example_settings (defaultInputSelection broadcast_fails_env)
     example_account ''SEED'' 1120000000000 [example_recipient]
     \<lparr>world = (), trace = trace example_state @ [CallSeed, CallTime]\<rparr>
   = (Return (Inr [''PROMOTION'']), Some ''ADDRESS3'', example_account\<lparr>lastKeyIndex := 3\<rparr>,
      \<lparr>world = (),
       trace = [CallSeed, CallTime,
                CallGetDepositRequests ''ACC'', CallGetLatestSolidSubtangleMilestone,
                CallTime, CallSeed, CallGetBalances [''ADDRESS1''] 100 ''MILESTONE'',
                CallSeed, CallWriteIndex ''ACC'' 3,
                CallAddDepositRequest ''ACC'' 3
                  \<lparr>SecurityLevel = 2, Req = \<lparr>TimeoutAt = None, MultiUse = False, ExpectedAmount = Some 40\<rparr>\<rparr>,
                CallPrepareTransfers [example_recipient]
                  \<lparr>Inputs = [\<lparr>in_Address = ''ADDRESS1'', in_KeyIndex = 1, in_Balance = 100, in_Security = 2\<rparr>],
                   RemainderAddress = Some ''ADDRESS3'', Timestamp = Some 1120\<rparr>,
                CallGetTransactionsToApprove 3 None,
                CallAttachToTangle ''TRUNK'' ''BRANCH'' 14 [''PROMOTION''],
                CallAddPendingTransfer ''ACC'' ''HASHOFPROMOTION'' [''PROMOTION''] [1]]\<rparr>)"
    using example_commit by (simp add: example_state_def)
  have g: "StoreAndBroadcast broadcast_fails_env [''PROMOTION'']
             (world \<lparr>world = (),
       trace = [CallSeed, CallTime,
                CallGetDepositRequests ''ACC'', CallGetLatestSolidSubtangleMilestone,
                CallTime, CallSeed, CallGetBalances [''ADDRESS1''] 100 ''MILESTONE'',
                CallSeed, CallWriteIndex ''ACC'' 3,
                CallAddDepositRequest ''ACC'' 3
                  \<lparr>SecurityLevel = 2, Req = \<lparr>TimeoutAt = None, MultiUse = False, ExpectedAmount = Some 40\<rparr>\<rparr>,
                CallPrepareTransfers [example_recipient]
                  \<lparr>Inputs = [\<lparr>in_Address = ''ADDRESS1'', in_KeyIndex = 1, in_Balance = 100, in_Security = 2\<rparr>],
                   RemainderAddress = Some ''ADDRESS3'', Timestamp = Some 1120\<rparr>,
                CallGetTransactionsToApprove 3 None,
                CallAttachToTangle ''TRUNK'' ''BRANCH'' 14 [''PROMOTION''],
                CallAddPendingTransfer ''ACC'' ''HASHOFPROMOTION'' [''PROMOTION''] [1]]\<rparr>)
           = (Inl (Opaque ''node unreachable''), ())"
    by (simp add: broadcast_fails_env_def)
  from broadcast_failure_keeps_commit [OF a b c d e f g] a b c
  show ?thesis by simp
qed

end
